theory Spec2Isabelle
  imports Main
begin

section \<open>JavaScript values\<close>

text \<open>
  The values that flow through \<open>SessionManager\<close> (\<open>frontend/src/config/api.js\<close>): what
  \<open>localStorage.getItem\<close> and \<open>response.json()\<close> produce, what callers pass in, and
  \<open>undefined\<close> for an omitted argument or a missing property. Values are trees (no cyclic
  objects); \<open>JNum n\<close> stands for the Number \<open>n\<close> where \<open>n\<close> is a safe integer (magnitude at
  most \<open>2^53 - 1\<close>), whose text in JavaScript is its decimal digits; fractions and larger
  magnitudes are outside the model, and nothing below computes with or compares numbers;
  an object lists its properties in enumeration order with distinct keys; a character is a
  byte.
\<close>

datatype jsval =
    JUndefined
  | JNull
  | JBool bool
  | JNum int
  | JStr string
  | JArr "jsval list"
  | JObj "(string \<times> jsval) list"

text \<open>What can be thrown inside the \<open>try\<close> blocks: \<open>fetch\<close> rejecting, \<open>response.json()\<close>
  rejecting, reading a property of \<open>null\<close> or \<open>undefined\<close>, and \<open>localStorage.setItem\<close>
  refusing a write.\<close>

datatype js_error = NetworkError | JsonSyntaxError | PropertyOfNullish | QuotaExceededError

text \<open>ToBoolean, as used by \<open>if (x)\<close>, \<open>!x\<close> and \<open>x || y\<close>.\<close>

fun truthy :: "jsval \<Rightarrow> bool" where
  "truthy JUndefined = False"
| "truthy JNull = False"
| "truthy (JBool b) = b"
| "truthy (JNum n) = (n \<noteq> 0)"
| "truthy (JStr s) = (s \<noteq> [])"
| "truthy (JArr xs) = True"
| "truthy (JObj kvs) = True"

text \<open>\<open>a || b\<close>.\<close>

definition js_or :: "jsval \<Rightarrow> jsval \<Rightarrow> jsval" where
  "js_or a b = (if truthy a then a else b)"

text \<open>\<open>data.name\<close>: throws on \<open>null\<close> and \<open>undefined\<close>; an object yields its own property
  or \<open>undefined\<close>; every other value has no property of the names read here.\<close>

fun get_prop :: "jsval \<Rightarrow> string \<Rightarrow> js_error + jsval" where
  "get_prop JUndefined k = Inl PropertyOfNullish"
| "get_prop JNull k = Inl PropertyOfNullish"
| "get_prop (JObj kvs) k = (case map_of kvs k of None \<Rightarrow> Inr JUndefined | Some v \<Rightarrow> Inr v)"
| "get_prop v k = Inr JUndefined"

fun join_comma :: "string list \<Rightarrow> string" where
  "join_comma [] = []"
| "join_comma [s] = s"
| "join_comma (s # t # ts) = s @ '','' @ join_comma (t # ts)"

text \<open>The decimal digits of an integer: the text JavaScript gives a Number that is a
  safe integer (beyond \<open>2^53 - 1\<close> a Number's text is not its exact digits, and such
  numbers are not values of this model).\<close>

fun dec_nat :: "nat \<Rightarrow> string" where
  "dec_nat n = (if n < 10 then [''0123456789'' ! n]
                else dec_nat (n div 10) @ [''0123456789'' ! (n mod 10)])"

definition dec_int :: "int \<Rightarrow> string" where
  "dec_int i = (if i < 0 then ''-'' @ dec_nat (nat (- i)) else dec_nat (nat i))"

text \<open>ToString, as applied by template literals and by \<open>localStorage.setItem\<close>.\<close>

fun js_to_string :: "jsval \<Rightarrow> string" where
  "js_to_string JUndefined = ''undefined''"
| "js_to_string JNull = ''null''"
| "js_to_string (JBool b) = (if b then ''true'' else ''false'')"
| "js_to_string (JNum n) = dec_int n"
| "js_to_string (JStr s) = s"
| "js_to_string (JArr xs) =
     join_comma (map (\<lambda>x. if x = JUndefined \<or> x = JNull then [] else js_to_string x) xs)"
| "js_to_string (JObj kvs) = ''[object Object]''"

subsection \<open>\<open>JSON.stringify\<close>\<close>

definition dquote :: char where
  "dquote = CHR 0x22"

definition backslash :: char where
  "backslash = CHR 0x5C"

definition hex_digit :: "nat \<Rightarrow> char" where
  "hex_digit n = ''0123456789abcdef'' ! (n mod 16)"

definition json_escape_char :: "char \<Rightarrow> string" where
  "json_escape_char c =
     (if c = dquote then [backslash, dquote]
      else if c = backslash then [backslash, backslash]
      else if c = CHR 0x08 then [backslash, CHR ''b'']
      else if c = CHR 0x0C then [backslash, CHR ''f'']
      else if c = CHR 0x0A then [backslash, CHR ''n'']
      else if c = CHR 0x0D then [backslash, CHR ''r'']
      else if c = CHR 0x09 then [backslash, CHR ''t'']
      else if (of_char c :: nat) < 32
        then [backslash, CHR ''u'', CHR ''0'', CHR ''0'',
              hex_digit (of_char c div 16), hex_digit (of_char c)]
      else [c])"

definition json_quote :: "string \<Rightarrow> string" where
  "json_quote s = [dquote] @ concat (map json_escape_char s) @ [dquote]"

text \<open>\<open>None\<close> is the result \<open>undefined\<close>: a property whose value serialises to \<open>undefined\<close>
  is left out, an array element is written \<open>null\<close>.\<close>

fun JSON_stringify :: "jsval \<Rightarrow> string option" where
  "JSON_stringify JUndefined = None"
| "JSON_stringify JNull = Some ''null''"
| "JSON_stringify (JBool b) = Some (if b then ''true'' else ''false'')"
| "JSON_stringify (JNum n) = Some (dec_int n)"
| "JSON_stringify (JStr s) = Some (json_quote s)"
| "JSON_stringify (JArr xs) =
     Some (''['' @ join_comma (map (\<lambda>x. case JSON_stringify x of None \<Rightarrow> ''null''
                                                              | Some t \<Rightarrow> t) xs) @ '']'')"
| "JSON_stringify (JObj kvs) =
     Some (''{'' @ join_comma (concat (map (\<lambda>kv. case JSON_stringify (snd kv) of
                                                   None \<Rightarrow> []
                                                 | Some t \<Rightarrow> [json_quote (fst kv) @ '':'' @ t]) kvs))
           @ ''}'')"

text \<open>The property names \<open>JSON.stringify\<close> writes for an object.\<close>

definition stringified_keys :: "(string \<times> jsval) list \<Rightarrow> string list" where
  "stringified_keys kvs = map fst (filter (\<lambda>kv. JSON_stringify (snd kv) \<noteq> None) kvs)"

section \<open>The browser: storage, transport, console\<close>

text \<open>
  What \<open>SessionManager\<close> touches outside itself: \<open>localStorage\<close>, \<open>fetch\<close> and
  \<open>console.error\<close>. A request is what \<open>fetch\<close> is given: the URL and the options
  \<open>method\<close>, \<open>headers\<close>, \<open>body\<close> (for \<open>fetch(url)\<close> alone: GET, no headers, no body).
\<close>

record request =
  url :: string
  "method" :: string
  headers :: "(string \<times> string) list"
  body :: "string option"

text \<open>A response: its status and what \<open>response.json()\<close> yields (\<open>None\<close>: the body does
  not parse and the promise rejects).\<close>

record response =
  status :: nat
  json_body :: "jsval option"

definition ok :: "response \<Rightarrow> bool" where
  "ok r = (200 \<le> status r \<and> status r \<le> 299)"

datatype fetch_result = Rejected | Resolved response

text \<open>The transport and the server behind it: the outcome of a request, given the
  requests issued before it.\<close>

type_synonym transport = "request list \<Rightarrow> request \<Rightarrow> fetch_result"

text \<open>The state around the singleton: the build-time setting \<open>VITE_API_URL\<close> (if set),
  the contents of \<open>localStorage\<close>, the browser's storage quota (whether, with the given
  contents, writing the given text under the given key is accepted), the requests handed
  to \<open>fetch\<close> so far in order, and the lines written by \<open>console.error\<close> (message and
  error).\<close>

record world =
  vite_api_url :: "string option"
  localStorage :: "string \<rightharpoonup> string"
  quota_allows :: "(string \<rightharpoonup> string) \<Rightarrow> string \<Rightarrow> string \<Rightarrow> bool"
  sent :: "request list"
  console :: "(string \<times> js_error) list"

definition fetch :: "transport \<Rightarrow> world \<Rightarrow> request \<Rightarrow> fetch_result \<times> world" where
  "fetch net w req = (net (sent w) req, w\<lparr>sent := sent w @ [req]\<rparr>)"

definition getItem :: "world \<Rightarrow> string \<Rightarrow> jsval" where
  "getItem w k = (case localStorage w k of None \<Rightarrow> JNull | Some s \<Rightarrow> JStr s)"

text \<open>\<open>localStorage.setItem(k, v)\<close>: the value is written as its text; when the quota
  does not allow the write it throws and the storage is unchanged. \<open>getItem\<close> and
  \<open>removeItem\<close> do not throw.\<close>

definition setItem :: "world \<Rightarrow> string \<Rightarrow> jsval \<Rightarrow> js_error + world" where
  "setItem w k v =
     (if quota_allows w (localStorage w) k (js_to_string v)
      then Inr (w\<lparr>localStorage := (localStorage w)(k \<mapsto> js_to_string v)\<rparr>)
      else Inl QuotaExceededError)"

definition removeItem :: "world \<Rightarrow> string \<Rightarrow> world" where
  "removeItem w k = w\<lparr>localStorage := (localStorage w)(k := None)\<rparr>"

definition console_error :: "world \<Rightarrow> string \<Rightarrow> js_error \<Rightarrow> world" where
  "console_error w msg e = w\<lparr>console := console w @ [(msg, e)]\<rparr>"

section \<open>API configuration\<close>

text \<open>\<open>import.meta.env.VITE_API_URL || 'http://localhost:8086'\<close>\<close>

definition API_URL :: "world \<Rightarrow> string" where
  "API_URL w = (case vite_api_url w of
                  None \<Rightarrow> ''http://localhost:8086''
                | Some u \<Rightarrow> if u \<noteq> [] then u else ''http://localhost:8086'')"

definition SESSIONS :: "world \<Rightarrow> string" where
  "SESSIONS w = API_URL w @ ''/api/sessions''"

definition SESSION_BY_ID :: "world \<Rightarrow> jsval \<Rightarrow> string" where
  "SESSION_BY_ID w sessionId = API_URL w @ ''/api/sessions/'' @ js_to_string sessionId"

definition SESSION_HISTORY :: "world \<Rightarrow> jsval \<Rightarrow> string" where
  "SESSION_HISTORY w sessionId =
     API_URL w @ ''/api/sessions/'' @ js_to_string sessionId @ ''/history''"

definition SESSION_INTERACTIONS :: "world \<Rightarrow> jsval \<Rightarrow> string" where
  "SESSION_INTERACTIONS w sessionId =
     API_URL w @ ''/api/sessions/'' @ js_to_string sessionId @ ''/interactions''"

definition SESSION_CONTEXT :: "world \<Rightarrow> jsval \<Rightarrow> string" where
  "SESSION_CONTEXT w sessionId =
     API_URL w @ ''/api/sessions/'' @ js_to_string sessionId @ ''/context''"

definition SESSION_STORAGE_KEY :: string where
  "SESSION_STORAGE_KEY = ''forensic_tool_session_id''"

definition json_headers :: "(string \<times> string) list" where
  "json_headers = [(''Content-Type'', ''application/json'')]"

text \<open>\<open>fetch(url)\<close> with no options.\<close>

definition get_request :: "string \<Rightarrow> request" where
  "get_request u = \<lparr>url = u, method = ''GET'', headers = [], body = None\<rparr>"

section \<open>SessionManager\<close>

subsection \<open>getSessionId\<close>

definition create_request :: "world \<Rightarrow> request" where
  "create_request w =
     \<lparr>url = SESSIONS w, method = ''POST'', headers = json_headers,
      body = JSON_stringify (JObj [(''user_id'', JStr ''web_user'')])\<rparr>"

text \<open>The second half of the \<open>try\<close> block, from \<open>// Create new session\<close> on.\<close>

definition getSessionId_create :: "transport \<Rightarrow> world \<Rightarrow> (js_error + jsval) \<times> world" where
  "getSessionId_create net w =
     (case fetch net w (create_request w) of
        (Rejected, w1) \<Rightarrow> (Inl NetworkError, w1)
      | (Resolved response, w1) \<Rightarrow>
          if ok response then
            (case json_body response of
               None \<Rightarrow> (Inl JsonSyntaxError, w1)
             | Some data \<Rightarrow>
                 (case get_prop data ''session_id'' of
                    Inl e \<Rightarrow> (Inl e, w1)
                  | Inr sessionId \<Rightarrow>
                      (case setItem w1 SESSION_STORAGE_KEY sessionId of
                         Inl e \<Rightarrow> (Inl e, w1)
                       | Inr w2 \<Rightarrow> (Inr sessionId, w2))))
          else (Inr JNull, w1))"

text \<open>\<open>fetch(API_ENDPOINTS.SESSION_BY_ID(sessionId))\<close>, the check that a stored id is
  still valid.\<close>

definition validate_request :: "world \<Rightarrow> jsval \<Rightarrow> request" where
  "validate_request w sessionId = get_request (SESSION_BY_ID w sessionId)"

text \<open>The \<open>try\<close> block: \<open>Inl\<close> is an exception on its way to the \<open>catch\<close>.\<close>

definition getSessionId_try :: "transport \<Rightarrow> world \<Rightarrow> (js_error + jsval) \<times> world" where
  "getSessionId_try net w =
     (let sessionId = getItem w SESSION_STORAGE_KEY in
      if truthy sessionId then
        (case fetch net w (validate_request w sessionId) of
           (Rejected, w1) \<Rightarrow> (Inl NetworkError, w1)
         | (Resolved response, w1) \<Rightarrow>
             if ok response then (Inr sessionId, w1) else getSessionId_create net w1)
      else getSessionId_create net w)"

text \<open>The whole function: \<open>Inl\<close> would be a rejected promise seen by the caller.\<close>

definition getSessionId :: "transport \<Rightarrow> world \<Rightarrow> (js_error + jsval) \<times> world" where
  "getSessionId net w =
     (case getSessionId_try net w of
        (Inl error, w1) \<Rightarrow> (Inr JNull, console_error w1 ''Error managing session:'' error)
      | (Inr v, w1) \<Rightarrow> (Inr v, w1))"

subsection \<open>logInteraction\<close>

text \<open>A default parameter value \<open>p = d\<close>: it replaces \<open>undefined\<close> (an omitted argument)
  and nothing else.\<close>

definition default_param :: "jsval \<Rightarrow> jsval \<Rightarrow> jsval" where
  "default_param v d = (if v = JUndefined then d else v)"

text \<open>The object literal handed to \<open>JSON.stringify\<close>; the shorthand properties are named
  after their variables.\<close>

definition interaction_payload :: "jsval \<Rightarrow> jsval \<Rightarrow> jsval \<Rightarrow> jsval \<Rightarrow> jsval" where
  "interaction_payload interactionType query results metadata =
     JObj [(''interaction_type'', interactionType), (''query'', query),
           (''results'', results), (''metadata'', metadata)]"

definition interaction_request ::
  "world \<Rightarrow> jsval \<Rightarrow> jsval \<Rightarrow> jsval \<Rightarrow> jsval \<Rightarrow> jsval \<Rightarrow> request" where
  "interaction_request w sessionId interactionType query results metadata =
     \<lparr>url = SESSION_INTERACTIONS w sessionId, method = ''POST'', headers = json_headers,
      body = JSON_stringify (interaction_payload interactionType query results metadata)\<rparr>"

definition logInteraction_try ::
  "transport \<Rightarrow> world \<Rightarrow> jsval \<Rightarrow> jsval \<Rightarrow> jsval \<Rightarrow> jsval \<Rightarrow> (js_error + jsval) \<times> world" where
  "logInteraction_try net w interactionType query0 results0 metadata0 =
     (let query = default_param query0 JNull;
          results = default_param results0 JNull;
          metadata = default_param metadata0 JNull in
      case getSessionId net w of
        (Inl e, w1) \<Rightarrow> (Inl e, w1)
      | (Inr sessionId, w1) \<Rightarrow>
          if \<not> truthy sessionId then (Inr (JBool False), w1)
          else
            (case fetch net w1
                    (interaction_request w1 sessionId interactionType query results metadata) of
               (Rejected, w2) \<Rightarrow> (Inl NetworkError, w2)
             | (Resolved response, w2) \<Rightarrow> (Inr (JBool (ok response)), w2)))"

definition logInteraction ::
  "transport \<Rightarrow> world \<Rightarrow> jsval \<Rightarrow> jsval \<Rightarrow> jsval \<Rightarrow> jsval \<Rightarrow> (js_error + jsval) \<times> world" where
  "logInteraction net w interactionType query results metadata =
     (case logInteraction_try net w interactionType query results metadata of
        (Inl error, w1) \<Rightarrow> (Inr (JBool False), console_error w1 ''Error logging interaction:'' error)
      | (Inr v, w1) \<Rightarrow> (Inr v, w1))"

subsection \<open>getHistory\<close>

definition history_request :: "world \<Rightarrow> jsval \<Rightarrow> jsval \<Rightarrow> request" where
  "history_request w sessionId limit =
     get_request (SESSION_HISTORY w sessionId @ ''?limit='' @ js_to_string limit)"

definition getHistory_try :: "transport \<Rightarrow> world \<Rightarrow> jsval \<Rightarrow> (js_error + jsval) \<times> world" where
  "getHistory_try net w limit0 =
     (let limit = default_param limit0 (JNum 50) in
      case getSessionId net w of
        (Inl e, w1) \<Rightarrow> (Inl e, w1)
      | (Inr sessionId, w1) \<Rightarrow>
          if \<not> truthy sessionId then (Inr (JArr []), w1)
          else
            (case fetch net w1 (history_request w1 sessionId limit) of
               (Rejected, w2) \<Rightarrow> (Inl NetworkError, w2)
             | (Resolved response, w2) \<Rightarrow>
                 if ok response then
                   (case json_body response of
                      None \<Rightarrow> (Inl JsonSyntaxError, w2)
                    | Some data \<Rightarrow>
                        (case get_prop data ''history'' of
                           Inl e \<Rightarrow> (Inl e, w2)
                         | Inr history \<Rightarrow> (Inr (js_or history (JArr [])), w2)))
                 else (Inr (JArr []), w2)))"

definition getHistory :: "transport \<Rightarrow> world \<Rightarrow> jsval \<Rightarrow> (js_error + jsval) \<times> world" where
  "getHistory net w limit =
     (case getHistory_try net w limit of
        (Inl error, w1) \<Rightarrow> (Inr (JArr []), console_error w1 ''Error getting history:'' error)
      | (Inr v, w1) \<Rightarrow> (Inr v, w1))"

subsection \<open>updateContext\<close>

definition context_request :: "world \<Rightarrow> jsval \<Rightarrow> jsval \<Rightarrow> request" where
  "context_request w sessionId contextData =
     \<lparr>url = SESSION_CONTEXT w sessionId, method = ''PUT'', headers = json_headers,
      body = JSON_stringify (JObj [(''context_data'', contextData)])\<rparr>"

definition updateContext_try :: "transport \<Rightarrow> world \<Rightarrow> jsval \<Rightarrow> (js_error + jsval) \<times> world" where
  "updateContext_try net w contextData =
     (case getSessionId net w of
        (Inl e, w1) \<Rightarrow> (Inl e, w1)
      | (Inr sessionId, w1) \<Rightarrow>
          if \<not> truthy sessionId then (Inr (JBool False), w1)
          else
            (case fetch net w1 (context_request w1 sessionId contextData) of
               (Rejected, w2) \<Rightarrow> (Inl NetworkError, w2)
             | (Resolved response, w2) \<Rightarrow> (Inr (JBool (ok response)), w2)))"

definition updateContext :: "transport \<Rightarrow> world \<Rightarrow> jsval \<Rightarrow> (js_error + jsval) \<times> world" where
  "updateContext net w contextData =
     (case updateContext_try net w contextData of
        (Inl error, w1) \<Rightarrow> (Inr (JBool False), console_error w1 ''Error updating context:'' error)
      | (Inr v, w1) \<Rightarrow> (Inr v, w1))"

subsection \<open>clearSession\<close>

definition clearSession :: "world \<Rightarrow> world" where
  "clearSession w = removeItem w SESSION_STORAGE_KEY"

section \<open>Callers\<close>

text \<open>A caller's sequence of operations on the singleton, each awaited before the next
  starts (calls in flight at the same time are not interleaved here); a synchronous
  \<open>clearSession()\<close> returns \<open>undefined\<close>.\<close>

datatype call =
    GetSessionId
  | LogInteraction jsval jsval jsval jsval
  | GetHistory jsval
  | UpdateContext jsval
  | ClearSession

fun run_call :: "transport \<Rightarrow> world \<Rightarrow> call \<Rightarrow> (js_error + jsval) \<times> world" where
  "run_call net w GetSessionId = getSessionId net w"
| "run_call net w (LogInteraction t q r m) = logInteraction net w t q r m"
| "run_call net w (GetHistory limit) = getHistory net w limit"
| "run_call net w (UpdateContext c) = updateContext net w c"
| "run_call net w ClearSession = (Inr JUndefined, clearSession w)"

text \<open>The calls with their outcomes, and the world they leave.\<close>

fun run_calls :: "transport \<Rightarrow> world \<Rightarrow> call list \<Rightarrow> (call \<times> (js_error + jsval)) list \<times> world" where
  "run_calls net w [] = ([], w)"
| "run_calls net w (c # cs) =
     (case run_call net w c of
        (r, w1) \<Rightarrow> (case run_calls net w1 cs of (rs, w2) \<Rightarrow> ((c, r) # rs, w2)))"

section \<open>Vocabulary of the properties\<close>


text \<open>The three transport failures of the specification's error taxonomy: network
  failure, non-success status, body that does not parse.\<close>

fun failing :: "fetch_result \<Rightarrow> bool" where
  "failing Rejected = True"
| "failing (Resolved r) = (\<not> ok r \<or> json_body r = None)"

text \<open>A non-empty identifier, or none.\<close>

fun session_id_or_none :: "jsval \<Rightarrow> bool" where
  "session_id_or_none JNull = True"
| "session_id_or_none (JStr s) = (s \<noteq> [])"
| "session_id_or_none v = False"

text \<open>The server keeps the contract of the create call: every 2xx reply to it that parses
  carries a non-empty string \<open>session_id\<close>.\<close>

definition create_replies_carry_id :: "transport \<Rightarrow> world \<Rightarrow> bool" where
  "create_replies_carry_id net w =
     (\<forall>h resp data. net h (create_request w) = Resolved resp \<longrightarrow> ok resp \<longrightarrow>
        json_body resp = Some data \<longrightarrow>
        (\<exists>s. s \<noteq> [] \<and> get_prop data ''session_id'' = Inr (JStr s)))"

text \<open>A session-create request: a POST to the sessions collection.\<close>

definition is_create_request :: "world \<Rightarrow> request \<Rightarrow> bool" where
  "is_create_request w req = (method req = ''POST'' \<and> url req = SESSIONS w)"

text \<open>The create request, issued after the requests \<open>h\<close>, succeeds with id \<open>v\<close>: the
  reply is 2xx and its parsed body has \<open>session_id\<close> \<open>v\<close>.\<close>

definition create_succeeds :: "transport \<Rightarrow> request list \<Rightarrow> world \<Rightarrow> jsval \<Rightarrow> bool" where
  "create_succeeds net h w v =
     (case net h (create_request w) of
        Rejected \<Rightarrow> False
      | Resolved resp \<Rightarrow>
          ok resp \<and>
          (case json_body resp of
             None \<Rightarrow> False
           | Some data \<Rightarrow> get_prop data ''session_id'' = Inr v))"


text \<open>Local storage accepts the id \<open>v\<close> under the session key.\<close>

definition write_accepted :: "world \<Rightarrow> jsval \<Rightarrow> bool" where
  "write_accepted w v =
     quota_allows w (localStorage w) SESSION_STORAGE_KEY (js_to_string v)"

text \<open>The server rejects the stored id: the validation request is answered, with a
  status outside 200..299.\<close>

definition validation_refused :: "transport \<Rightarrow> world \<Rightarrow> bool" where
  "validation_refused net w =
     (case net (sent w) (validate_request w (getItem w SESSION_STORAGE_KEY)) of
        Rejected \<Rightarrow> False
      | Resolved resp \<Rightarrow> \<not> ok resp)"

text \<open>The server keeps confirming the id \<open>sid\<close>: whatever was requested before, the
  validation request for it gets a 2xx reply.\<close>

definition keeps_confirming :: "transport \<Rightarrow> world \<Rightarrow> string \<Rightarrow> bool" where
  "keeps_confirming net w sid =
     (\<forall>h. case net h (validate_request w (JStr sid)) of
             Rejected \<Rightarrow> False
           | Resolved resp \<Rightarrow> ok resp)"

fun is_array :: "jsval \<Rightarrow> bool" where
  "is_array (JArr xs) = True"
| "is_array v = False"

text \<open>How many records a returned history holds.\<close>

fun record_count :: "jsval \<Rightarrow> nat" where
  "record_count (JArr xs) = length xs"
| "record_count v = 0"

text \<open>The server honours the limit \<open>n\<close> on the request \<open>req\<close> issued after \<open>h\<close>: the
  history its reply carries, if any, has at most \<open>n\<close> records.\<close>

definition reply_within_limit :: "transport \<Rightarrow> request list \<Rightarrow> request \<Rightarrow> nat \<Rightarrow> bool" where
  "reply_within_limit net h req n =
     (case net h req of
        Rejected \<Rightarrow> True
      | Resolved resp \<Rightarrow>
          (case json_body resp of
             None \<Rightarrow> True
           | Some data \<Rightarrow>
               (case get_prop data ''history'' of
                  Inl e \<Rightarrow> True
                | Inr history \<Rightarrow> record_count history \<le> n)))"

section \<open>Example clients and backends\<close>

definition fresh_client :: world where
  "fresh_client =
     \<lparr>vite_api_url = None, localStorage = Map.empty, quota_allows = (\<lambda>m k v. True),
      sent = [], console = []\<rparr>"

text \<open>A fresh client whose storage takes no write (quota used up, or a private window
  with none).\<close>

definition full_client :: world where
  "full_client =
     \<lparr>vite_api_url = None, localStorage = Map.empty, quota_allows = (\<lambda>m k v. False),
      sent = [], console = []\<rparr>"

definition returning_client :: world where
  "returning_client =
     \<lparr>vite_api_url = None, localStorage = [SESSION_STORAGE_KEY \<mapsto> ''abc''],
      quota_allows = (\<lambda>m k v. True), sent = [], console = []\<rparr>"

definition stale_client :: world where
  "stale_client =
     \<lparr>vite_api_url = None, localStorage = [SESSION_STORAGE_KEY \<mapsto> ''stale''],
      quota_allows = (\<lambda>m k v. True), sent = [], console = []\<rparr>"

definition backend_down :: transport where
  "backend_down h req = Rejected"

text \<open>Every reply is a 200 whose body is not JSON (a proxy's HTML page).\<close>

definition backend_garbled :: transport where
  "backend_garbled h req = Resolved \<lparr>status = 200, json_body = None\<rparr>"

text \<open>A backend that numbers its sessions.\<close>

definition backend_numeric_id :: transport where
  "backend_numeric_id h req =
     Resolved \<lparr>status = 200, json_body = Some (JObj [(''session_id'', JNum 42)])\<rparr>"

definition history_records :: "jsval list" where
  "history_records =
     [JObj [(''interaction_type'', JStr ''view''), (''query'', JNull)],
      JObj [(''interaction_type'', JStr ''search''), (''query'', JStr ''brown hair'')]]"

text \<open>A backend that creates session \<open>s1\<close>, does not know session \<open>stale\<close>, accepts
  every other request, and answers a history request with two records whatever the
  limit.\<close>

definition backend_ok :: transport where
  "backend_ok h req =
     (if method req = ''POST'' \<and> url req = ''http://localhost:8086/api/sessions''
      then Resolved \<lparr>status = 200, json_body = Some (JObj [(''session_id'', JStr ''s1'')])\<rparr>
      else if url req = ''http://localhost:8086/api/sessions/stale''
      then Resolved \<lparr>status = 404, json_body = Some (JObj [(''detail'', JStr ''Session not found'')])\<rparr>
      else Resolved \<lparr>status = 200, json_body = Some (JObj [(''history'', JArr history_records)])\<rparr>)"

text \<open>A backend whose history field is a message instead of a list.\<close>

definition backend_history_text :: transport where
  "backend_history_text h req =
     Resolved \<lparr>status = 200, json_body = Some (JObj [(''history'', JStr ''unavailable'')])\<rparr>"

text \<open>A backend whose replies carry no history field.\<close>

definition backend_no_history :: transport where
  "backend_no_history h req =
     Resolved \<lparr>status = 200, json_body = Some (JObj [(''status'', JStr ''ok'')])\<rparr>"

section \<open>Supporting lemmas\<close>

lemma API_URL_sent [simp]: "API_URL (w\<lparr>sent := s\<rparr>) = API_URL w"
  by (simp add: API_URL_def)

lemma API_URL_cong: "vite_api_url w1 = vite_api_url w \<Longrightarrow> API_URL w1 = API_URL w"
  by (simp add: API_URL_def)

lemma create_request_sent [simp]: "create_request (w\<lparr>sent := s\<rparr>) = create_request w"
  by (simp add: create_request_def SESSIONS_def)

lemma JSON_stringify_None [simp]: "JSON_stringify v = None \<longleftrightarrow> v = JUndefined"
  by (cases v) simp_all

lemma default_param_defined [simp]: "default_param v JNull \<noteq> JUndefined"
  by (simp add: default_param_def)

subsection \<open>Session creation, by reply\<close>

lemma create_rejected:
  "net (sent w) (create_request w) = Rejected \<Longrightarrow>
   getSessionId_create net w = (Inl NetworkError, w\<lparr>sent := sent w @ [create_request w]\<rparr>)"
  by (simp add: getSessionId_create_def fetch_def)

lemma create_refused:
  "net (sent w) (create_request w) = Resolved r \<Longrightarrow> \<not> ok r \<Longrightarrow>
   getSessionId_create net w = (Inr JNull, w\<lparr>sent := sent w @ [create_request w]\<rparr>)"
  by (simp add: getSessionId_create_def fetch_def)

lemma create_garbled:
  "net (sent w) (create_request w) = Resolved r \<Longrightarrow> ok r \<Longrightarrow> json_body r = None \<Longrightarrow>
   getSessionId_create net w = (Inl JsonSyntaxError, w\<lparr>sent := sent w @ [create_request w]\<rparr>)"
  by (simp add: getSessionId_create_def fetch_def)

lemma create_accepted:
  "net (sent w) (create_request w) = Resolved r \<Longrightarrow> ok r \<Longrightarrow> json_body r = Some data \<Longrightarrow>
   get_prop data ''session_id'' = Inr v \<Longrightarrow>
   getSessionId_create net w =
     (case setItem (w\<lparr>sent := sent w @ [create_request w]\<rparr>) SESSION_STORAGE_KEY v of
        Inl e \<Rightarrow> (Inl e, w\<lparr>sent := sent w @ [create_request w]\<rparr>)
      | Inr w2 \<Rightarrow> (Inr v, w2))"
  by (simp add: getSessionId_create_def fetch_def)

lemma setItem_frame:
  "setItem w k v = Inr w2 \<Longrightarrow>
   sent w2 = sent w \<and> vite_api_url w2 = vite_api_url w \<and> console w2 = console w
   \<and> quota_allows w2 = quota_allows w"
  by (auto simp: setItem_def split: if_splits)

lemma create_sent:
  "sent (snd (getSessionId_create net w)) = sent w @ [create_request w]"
  by (auto simp add: getSessionId_create_def fetch_def dest: setItem_frame
      split: fetch_result.splits sum.splits option.splits)

lemma create_api_url:
  "vite_api_url (snd (getSessionId_create net w)) = vite_api_url w"
  by (auto simp add: getSessionId_create_def fetch_def dest: setItem_frame
      split: fetch_result.splits sum.splits option.splits)

subsection \<open>The \<open>try\<close> block of getSessionId, by storage\<close>

lemma try_miss:
  "\<not> truthy (getItem w SESSION_STORAGE_KEY) \<Longrightarrow>
   getSessionId_try net w = getSessionId_create net w"
  by (simp add: getSessionId_try_def)

lemma try_stored:
  assumes "truthy (getItem w SESSION_STORAGE_KEY)"
  shows "getSessionId_try net w =
     (case net (sent w) (validate_request w (getItem w SESSION_STORAGE_KEY)) of
        Rejected \<Rightarrow>
          (Inl NetworkError,
           w\<lparr>sent := sent w @ [validate_request w (getItem w SESSION_STORAGE_KEY)]\<rparr>)
      | Resolved r \<Rightarrow>
          if ok r
          then (Inr (getItem w SESSION_STORAGE_KEY),
                w\<lparr>sent := sent w @ [validate_request w (getItem w SESSION_STORAGE_KEY)]\<rparr>)
          else getSessionId_create net
                (w\<lparr>sent := sent w @ [validate_request w (getItem w SESSION_STORAGE_KEY)]\<rparr>))"
  using assms
  by (simp add: getSessionId_try_def fetch_def Let_def split: fetch_result.splits)

lemma stored_truthy:
  "localStorage w SESSION_STORAGE_KEY = Some sid \<Longrightarrow> sid \<noteq> [] \<Longrightarrow>
   getItem w SESSION_STORAGE_KEY = JStr sid \<and> truthy (getItem w SESSION_STORAGE_KEY)"
  by (simp add: getItem_def)

lemma truthy_stored:
  "truthy (getItem w SESSION_STORAGE_KEY) \<Longrightarrow>
   \<exists>sid. sid \<noteq> [] \<and> localStorage w SESSION_STORAGE_KEY = Some sid
        \<and> getItem w SESSION_STORAGE_KEY = JStr sid"
  by (auto simp: getItem_def split: option.splits)

subsection \<open>The \<open>catch\<close> of getSessionId\<close>

lemma getSessionId_returns: "\<exists>v. fst (getSessionId net w) = Inr v"
  by (cases "getSessionId_try net w") (auto simp: getSessionId_def split: sum.splits)

lemma getSessionId_sent: "sent (snd (getSessionId net w)) = sent (snd (getSessionId_try net w))"
  by (cases "getSessionId_try net w") (auto simp: getSessionId_def console_error_def split: sum.splits)

lemma getSessionId_api_url_try:
  "vite_api_url (snd (getSessionId net w)) = vite_api_url (snd (getSessionId_try net w))"
  by (cases "getSessionId_try net w") (auto simp: getSessionId_def console_error_def split: sum.splits)

lemma getSessionId_api_url [simp]:
  "vite_api_url (snd (getSessionId net w)) = vite_api_url w"
  unfolding getSessionId_api_url_try
  by (simp add: getSessionId_try_def fetch_def Let_def create_api_url split: fetch_result.splits)

lemma getSessionId_valid:
  assumes "localStorage w SESSION_STORAGE_KEY = Some sid" "sid \<noteq> []"
    and "net (sent w) (validate_request w (JStr sid)) = Resolved r" "ok r"
  shows "getSessionId net w =
           (Inr (JStr sid), w\<lparr>sent := sent w @ [validate_request w (JStr sid)]\<rparr>)"
proof -
  from assms(1,2) have g: "getItem w SESSION_STORAGE_KEY = JStr sid"
    and t: "truthy (getItem w SESSION_STORAGE_KEY)"
    by (simp_all add: stored_truthy)
  show ?thesis
    using assms(3,4) by (simp add: getSessionId_def try_stored [OF t] g)
qed


lemma getSessionId_resolves:
  obtains v w1 where "getSessionId net w = (Inr v, w1)"
  using getSessionId_returns [of net w] by (cases "getSessionId net w") auto

subsection \<open>The operations after session resolution\<close>

lemma logInteraction_after:
  assumes "getSessionId net w = (Inr v, w1)"
  shows "logInteraction net w t q r m =
     (if \<not> truthy v then (Inr (JBool False), w1)
      else
        (case net (sent w1)
                (interaction_request w1 v t (default_param q JNull) (default_param r JNull)
                   (default_param m JNull)) of
           Rejected \<Rightarrow>
             (Inr (JBool False),
              console_error
                (w1\<lparr>sent := sent w1 @
                   [interaction_request w1 v t (default_param q JNull) (default_param r JNull)
                      (default_param m JNull)]\<rparr>)
                ''Error logging interaction:'' NetworkError)
         | Resolved resp \<Rightarrow>
             (Inr (JBool (ok resp)),
              w1\<lparr>sent := sent w1 @
                 [interaction_request w1 v t (default_param q JNull) (default_param r JNull)
                    (default_param m JNull)]\<rparr>)))"
  using assms
  by (simp add: logInteraction_def logInteraction_try_def Let_def fetch_def
      split: fetch_result.splits)

lemma updateContext_after:
  assumes "getSessionId net w = (Inr v, w1)"
  shows "updateContext net w c =
     (if \<not> truthy v then (Inr (JBool False), w1)
      else
        (case net (sent w1) (context_request w1 v c) of
           Rejected \<Rightarrow>
             (Inr (JBool False),
              console_error (w1\<lparr>sent := sent w1 @ [context_request w1 v c]\<rparr>)
                ''Error updating context:'' NetworkError)
         | Resolved resp \<Rightarrow>
             (Inr (JBool (ok resp)), w1\<lparr>sent := sent w1 @ [context_request w1 v c]\<rparr>)))"
  using assms
  by (simp add: updateContext_def updateContext_try_def fetch_def split: fetch_result.splits)

lemma getHistory_after:
  assumes "getSessionId net w = (Inr v, w1)"
  shows "getHistory net w limit =
     (if \<not> truthy v then (Inr (JArr []), w1)
      else
        (case net (sent w1) (history_request w1 v (default_param limit (JNum 50))) of
           Rejected \<Rightarrow>
             (Inr (JArr []),
              console_error
                (w1\<lparr>sent := sent w1 @ [history_request w1 v (default_param limit (JNum 50))]\<rparr>)
                ''Error getting history:'' NetworkError)
         | Resolved resp \<Rightarrow>
             if ok resp then
               (case json_body resp of
                  None \<Rightarrow>
                    (Inr (JArr []),
                     console_error
                       (w1\<lparr>sent := sent w1 @
                          [history_request w1 v (default_param limit (JNum 50))]\<rparr>)
                       ''Error getting history:'' JsonSyntaxError)
                | Some data \<Rightarrow>
                    (case get_prop data ''history'' of
                       Inl e \<Rightarrow>
                         (Inr (JArr []),
                          console_error
                            (w1\<lparr>sent := sent w1 @
                               [history_request w1 v (default_param limit (JNum 50))]\<rparr>)
                            ''Error getting history:'' e)
                     | Inr history \<Rightarrow>
                         (Inr (js_or history (JArr [])),
                          w1\<lparr>sent := sent w1 @
                             [history_request w1 v (default_param limit (JNum 50))]\<rparr>)))
             else
               (Inr (JArr []),
                w1\<lparr>sent := sent w1 @
                   [history_request w1 v (default_param limit (JNum 50))]\<rparr>)))"
  using assms
  by (simp add: getHistory_def getHistory_try_def Let_def fetch_def
      split: fetch_result.splits option.splits sum.splits)

lemma logInteraction_returns: "\<exists>v. fst (logInteraction net w t q r m) = Inr v"
  by (rule getSessionId_resolves [of net w])
     (simp add: logInteraction_after split: fetch_result.splits)

lemma updateContext_returns: "\<exists>v. fst (updateContext net w c) = Inr v"
  by (rule getSessionId_resolves [of net w])
     (simp add: updateContext_after split: fetch_result.splits)

lemma getHistory_returns: "\<exists>v. fst (getHistory net w limit) = Inr v"
  by (rule getSessionId_resolves [of net w])
     (simp add: getHistory_after split: fetch_result.splits option.splits sum.splits)

lemma run_call_returns: "\<exists>v. fst (run_call net w c) = Inr v"
  by (cases c)
     (simp_all add: getSessionId_returns logInteraction_returns getHistory_returns
        updateContext_returns)

lemma logInteraction_api_url [simp]:
  "vite_api_url (snd (logInteraction net w t q r m)) = vite_api_url w"
proof (rule getSessionId_resolves [of net w])
  fix v w1 assume g: "getSessionId net w = (Inr v, w1)"
  have "vite_api_url w1 = vite_api_url w"
    using getSessionId_api_url [of net w] g by simp
  then show ?thesis
    by (simp add: logInteraction_after [OF g] console_error_def split: fetch_result.splits)
qed

lemma updateContext_api_url [simp]:
  "vite_api_url (snd (updateContext net w c)) = vite_api_url w"
proof (rule getSessionId_resolves [of net w])
  fix v w1 assume g: "getSessionId net w = (Inr v, w1)"
  have "vite_api_url w1 = vite_api_url w"
    using getSessionId_api_url [of net w] g by simp
  then show ?thesis
    by (simp add: updateContext_after [OF g] console_error_def split: fetch_result.splits)
qed

lemma getHistory_api_url [simp]:
  "vite_api_url (snd (getHistory net w limit)) = vite_api_url w"
proof (rule getSessionId_resolves [of net w])
  fix v w1 assume g: "getSessionId net w = (Inr v, w1)"
  have "vite_api_url w1 = vite_api_url w"
    using getSessionId_api_url [of net w] g by simp
  then show ?thesis
    by (simp add: getHistory_after [OF g] console_error_def
        split: fetch_result.splits option.splits sum.splits)
qed

lemma run_call_api_url: "vite_api_url (snd (run_call net w c)) = vite_api_url w"
  by (cases c) (simp_all add: clearSession_def removeItem_def)


lemmas run_defs =
  getSessionId_def getSessionId_try_def getSessionId_create_def logInteraction_def
  logInteraction_try_def getHistory_def getHistory_try_def updateContext_def
  updateContext_try_def clearSession_def fetch_def getItem_def setItem_def removeItem_def
  console_error_def validate_request_def create_request_def interaction_request_def
  interaction_payload_def history_request_def context_request_def get_request_def
  SESSION_BY_ID_def SESSIONS_def SESSION_HISTORY_def SESSION_INTERACTIONS_def
  SESSION_CONTEXT_def API_URL_def SESSION_STORAGE_KEY_def json_headers_def default_param_def
  js_or_def ok_def Let_def

lemmas example_defs =
  fresh_client_def full_client_def returning_client_def stale_client_def backend_down_def
  backend_garbled_def backend_numeric_id_def backend_ok_def backend_history_text_def
  backend_no_history_def history_records_def

lemmas json_defs = json_quote_def json_escape_char_def dquote_def backslash_def dec_int_def

section \<open>Failure semantics\<close>










lemma getHistory_failing_reply:
  assumes "getSessionId net w = (Inr v, w1)"
    and "truthy v \<Longrightarrow> failing (net (sent w1) (history_request w1 v (default_param limit (JNum 50))))"
  shows "fst (getHistory net w limit) = Inr (JArr [])"
proof (cases "truthy v")
  case False
  with assms(1) show ?thesis by (simp add: getHistory_after)
next
  case True
  with assms(2)
  have "failing (net (sent w1) (history_request w1 v (default_param limit (JNum 50))))" .
  with True show ?thesis
    by (cases "net (sent w1) (history_request w1 v (default_param limit (JNum 50)))")
       (auto simp: getHistory_after [OF assms(1)])
qed





section \<open>The result of getSessionId\<close>

lemma create_request_api_url:
  "vite_api_url w1 = vite_api_url w \<Longrightarrow> create_request w1 = create_request w"
  by (simp add: create_request_def SESSIONS_def API_URL_def)

lemma create_id_or_none:
  assumes "create_replies_carry_id net w"
  shows "(\<exists>e. fst (getSessionId_create net w) = Inl e)
         \<or> (\<exists>v. fst (getSessionId_create net w) = Inr v \<and> session_id_or_none v)"
proof (cases "net (sent w) (create_request w)")
  case Rejected
  then show ?thesis by (simp add: create_rejected)
next
  case (Resolved resp)
  show ?thesis
  proof (cases "ok resp")
    case False
    with Resolved show ?thesis by (simp add: create_refused)
  next
    case True
    show ?thesis
    proof (cases "json_body resp")
      case None
      with Resolved True show ?thesis by (simp add: create_garbled)
    next
      case (Some data)
      with assms Resolved True obtain s
        where s: "s \<noteq> []" "get_prop data ''session_id'' = Inr (JStr s)"
        unfolding create_replies_carry_id_def by blast
      with Resolved True Some show ?thesis
        by (simp add: create_accepted split: sum.splits)
    qed
  qed
qed

lemma getSessionId_id_or_none:
  assumes "create_replies_carry_id net w"
  shows "\<exists>v. fst (getSessionId net w) = Inr v \<and> session_id_or_none v"
proof -
  have lift: "\<exists>v. fst (getSessionId net w) = Inr v \<and> session_id_or_none v"
    if "(\<exists>e. fst (getSessionId_try net w) = Inl e)
        \<or> (\<exists>v. fst (getSessionId_try net w) = Inr v \<and> session_id_or_none v)"
    using that by (cases "getSessionId_try net w") (auto simp: getSessionId_def)
  show ?thesis
  proof (cases "truthy (getItem w SESSION_STORAGE_KEY)")
    case False
    then show ?thesis using create_id_or_none [OF assms] by (intro lift) (simp add: try_miss)
  next
    case True
    let ?v = "validate_request w (getItem w SESSION_STORAGE_KEY)"
    let ?w1 = "w\<lparr>sent := sent w @ [?v]\<rparr>"
    from True obtain sid where sid: "sid \<noteq> []" "getItem w SESSION_STORAGE_KEY = JStr sid"
      using truthy_stored by blast
    have c: "(\<exists>e. fst (getSessionId_create net ?w1) = Inl e)
         \<or> (\<exists>v. fst (getSessionId_create net ?w1) = Inr v \<and> session_id_or_none v)"
      using assms by (intro create_id_or_none) (simp add: create_replies_carry_id_def)
    show ?thesis
    proof (rule lift, cases "net (sent w) ?v")
      case Rejected
      then show "(\<exists>e. fst (getSessionId_try net w) = Inl e)
        \<or> (\<exists>v. fst (getSessionId_try net w) = Inr v \<and> session_id_or_none v)"
        by (simp add: try_stored [OF True])
    next
      case (Resolved resp)
      with c sid show "(\<exists>e. fst (getSessionId_try net w) = Inl e)
        \<or> (\<exists>v. fst (getSessionId_try net w) = Inr v \<and> session_id_or_none v)"
        by (cases "ok resp") (simp_all add: try_stored [OF True])
    qed
  qed
qed

text \<open>
  Claim C2, as the code has it. In every sequence of calls, against every server, no call
  raises. If every 2xx create reply that parses carries a non-empty string \<open>session_id\<close>,
  every result of getSessionId is a non-empty identifier or \<open>null\<close>. The create reply is
  not validated: without that proviso the result is whatever \<open>session_id\<close> the reply
  holds, as the counterexample shows.
\<close>

theorem getSessionId_never_raises:
  assumes "(c, r) \<in> set (fst (run_calls net w cs))"
  shows "(\<exists>v. r = Inr v)
    \<and> (c = GetSessionId \<longrightarrow>
         create_replies_carry_id net w \<longrightarrow>
         (\<exists>v. r = Inr v \<and> session_id_or_none v))"
  using assms
proof (induction cs arbitrary: w)
  case Nil
  then show ?case by simp
next
  case (Cons c0 cs)
  obtain r0 w1 where step: "run_call net w c0 = (r0, w1)"
    by (cases "run_call net w c0")
  obtain rs w2 where rest: "run_calls net w1 cs = (rs, w2)"
    by (cases "run_calls net w1 cs")
  have "create_request w1 = create_request w"
    using run_call_api_url [of net w c0] step by (intro create_request_api_url) simp
  then have url: "create_replies_carry_id net w1 = create_replies_carry_id net w"
    by (simp add: create_replies_carry_id_def)
  from Cons.prems step rest have "(c, r) = (c0, r0) \<or> (c, r) \<in> set (fst (run_calls net w1 cs))"
    by simp
  then show ?case
  proof
    assume first: "(c, r) = (c0, r0)"
    with step have r: "r = fst (run_call net w c)" by simp
    have "\<exists>v. r = Inr v" unfolding r by (rule run_call_returns)
    moreover have "\<exists>v. r = Inr v \<and> session_id_or_none v"
      if "c = GetSessionId"
        "create_replies_carry_id net w"
      using getSessionId_id_or_none [OF that(2)] r that(1) by simp
    ultimately show ?thesis by blast
  next
    assume "(c, r) \<in> set (fst (run_calls net w1 cs))"
    from Cons.IH [OF this] show ?thesis unfolding url .
  qed
qed

theorem getSessionId_never_raises_witness:
  "(GetSessionId, Inr (JStr ''s1''))
     \<in> set (fst (run_calls backend_ok fresh_client
                   [GetHistory (JNum 5), ClearSession, GetSessionId]))
   \<and> session_id_or_none (JStr ''s1'')"
proof -
  have m: "(GetSessionId, Inr (JStr ''s1''))
     \<in> set (fst (run_calls backend_ok fresh_client
                   [GetHistory (JNum 5), ClearSession, GetSessionId]))"
    by (simp add: run_defs example_defs json_defs)
  have s: "create_replies_carry_id backend_ok fresh_client"
    by (auto simp add: create_replies_carry_id_def run_defs example_defs)
  from getSessionId_never_raises [OF m] s show ?thesis
    using m by simp
qed

text \<open>
  Claim C2 as stated fails when the server's create reply is not the expected shape. A
  fresh client asks a backend that numbers its sessions: the reply is 2xx with
  \<open>session_id\<close> 42, and getSessionId returns the number 42, neither a non-empty
  identifier string nor none. (Local storage then holds the text \<open>42\<close>.)
\<close>

theorem getSessionId_never_raises_counterexample:
  "fst (getSessionId backend_numeric_id fresh_client) = Inr (JNum 42)
   \<and> \<not> session_id_or_none (JNum 42)
   \<and> localStorage (snd (getSessionId backend_numeric_id fresh_client)) SESSION_STORAGE_KEY
       = Some ''42''"
  by (simp add: run_defs example_defs json_defs)


section \<open>Session creation: at most once per call\<close>

lemma create_succeeds_result:
  assumes "create_succeeds net (sent w) w v"
  shows "getSessionId_create net w =
     (case setItem (w\<lparr>sent := sent w @ [create_request w]\<rparr>) SESSION_STORAGE_KEY v of
        Inl e \<Rightarrow> (Inl e, w\<lparr>sent := sent w @ [create_request w]\<rparr>)
      | Inr w2 \<Rightarrow> (Inr v, w2))"
proof -
  from assms obtain resp data
    where "net (sent w) (create_request w) = Resolved resp" "ok resp"
      "json_body resp = Some data" "get_prop data ''session_id'' = Inr v"
    by (auto simp: create_succeeds_def split: fetch_result.splits option.splits)
  then show ?thesis by (rule create_accepted)
qed

lemma getSessionId_miss_sent:
  assumes "\<not> truthy (getItem w SESSION_STORAGE_KEY)"
  shows "sent (snd (getSessionId net w)) = sent w @ [create_request w]"
  using assms by (simp add: getSessionId_sent try_miss create_sent)

lemma getSessionId_miss_created:
  assumes "\<not> truthy (getItem w SESSION_STORAGE_KEY)" "create_succeeds net (sent w) w v"
  shows "getSessionId net w =
     (if write_accepted w v
      then (Inr v,
            w\<lparr>sent := sent w @ [create_request w],
              localStorage := (localStorage w)(SESSION_STORAGE_KEY \<mapsto> js_to_string v)\<rparr>)
      else (Inr JNull,
            console_error (w\<lparr>sent := sent w @ [create_request w]\<rparr>)
              ''Error managing session:'' QuotaExceededError))"
  using assms
  by (simp add: getSessionId_def try_miss create_succeeds_result setItem_def write_accepted_def)

lemma validation_refused_try:
  assumes "truthy (getItem w SESSION_STORAGE_KEY)" "validation_refused net w"
  shows "getSessionId_try net w =
     getSessionId_create net
       (w\<lparr>sent := sent w @ [validate_request w (getItem w SESSION_STORAGE_KEY)]\<rparr>)"
  using assms(2)
  by (auto simp: try_stored [OF assms(1)] validation_refused_def split: fetch_result.splits)

lemma getSessionId_refused_sent:
  assumes "truthy (getItem w SESSION_STORAGE_KEY)" "validation_refused net w"
  shows "sent (snd (getSessionId net w)) =
           sent w @ [validate_request w (getItem w SESSION_STORAGE_KEY), create_request w]"
  by (simp add: getSessionId_sent validation_refused_try [OF assms] create_sent)

lemma create_succeeds_sent:
  "create_succeeds net h (w\<lparr>sent := s\<rparr>) v = create_succeeds net h w v"
  by (simp add: create_succeeds_def)

lemma getSessionId_refused_created:
  assumes "truthy (getItem w SESSION_STORAGE_KEY)" "validation_refused net w"
    and "create_succeeds net
           (sent w @ [validate_request w (getItem w SESSION_STORAGE_KEY)]) w v"
  shows "getSessionId net w =
     (if write_accepted w v
      then (Inr v,
            w\<lparr>sent := sent w @
                  [validate_request w (getItem w SESSION_STORAGE_KEY), create_request w],
              localStorage := (localStorage w)(SESSION_STORAGE_KEY \<mapsto> js_to_string v)\<rparr>)
      else (Inr JNull,
            console_error
              (w\<lparr>sent := sent w @
                    [validate_request w (getItem w SESSION_STORAGE_KEY), create_request w]\<rparr>)
              ''Error managing session:'' QuotaExceededError))"
proof -
  let ?w1 = "w\<lparr>sent := sent w @ [validate_request w (getItem w SESSION_STORAGE_KEY)]\<rparr>"
  have "create_succeeds net (sent ?w1) ?w1 v"
    using assms(3) by (simp add: create_succeeds_sent)
  from create_succeeds_result [OF this] show ?thesis
    by (simp add: getSessionId_def validation_refused_try [OF assms(1,2)] setItem_def
        write_accepted_def)
qed

lemma validate_not_create: "\<not> is_create_request w (validate_request w1 v)"
  by (simp add: is_create_request_def validate_request_def get_request_def)

lemma create_is_create: "is_create_request w (create_request w)"
  by (simp add: is_create_request_def create_request_def)

lemma getSessionId_new_requests:
  obtains "sent (snd (getSessionId net w)) = sent w @ [create_request w]"
  | "sent (snd (getSessionId net w)) =
       sent w @ [validate_request w (getItem w SESSION_STORAGE_KEY)]"
  | "sent (snd (getSessionId net w)) =
       sent w @ [validate_request w (getItem w SESSION_STORAGE_KEY), create_request w]"
proof (cases "truthy (getItem w SESSION_STORAGE_KEY)")
  case False
  then show ?thesis using that(1) by (simp add: getSessionId_miss_sent)
next
  case True
  show ?thesis
  proof (cases "net (sent w) (validate_request w (getItem w SESSION_STORAGE_KEY))")
    case Rejected
    then show ?thesis using that(2)
      by (simp add: getSessionId_sent try_stored [OF True])
  next
    case (Resolved resp)
    then show ?thesis using that(2,3)
      by (cases "ok resp") (simp_all add: getSessionId_sent try_stored [OF True] create_sent)
  qed
qed

text \<open>
  Claim C3, as the code has it. One call of getSessionId issues at most one session-create
  request. When no id is stored locally (or only the empty string) it issues exactly one
  request, the create; when the server answers the validation of the stored id with a
  non-2xx status it issues exactly the validation and then one create. In both cases, if
  the create request succeeds with id \<open>v\<close> and local storage accepts the write, the call
  returns \<open>v\<close> and leaves \<open>v\<close> (as \<open>setItem\<close> writes it: a string id unchanged) under the
  storage key, replacing what was there; if local storage refuses the write, the error is
  caught, the call returns \<open>null\<close> and storage is left as it was. (A validation that fails
  at the network level is not a rejection by the server: it goes to the \<open>catch\<close>, and the
  call ends without a create.)
\<close>

theorem getSessionId_creates_once:
  "(\<exists>new. sent (snd (getSessionId net w)) = sent w @ new
          \<and> length (filter (is_create_request w) new) \<le> 1)
   \<and> (\<not> truthy (getItem w SESSION_STORAGE_KEY) \<longrightarrow>
        sent (snd (getSessionId net w)) = sent w @ [create_request w]
        \<and> (create_succeeds net (sent w) w v \<and> write_accepted w v \<longrightarrow>
             fst (getSessionId net w) = Inr v
             \<and> localStorage (snd (getSessionId net w))
                 = (localStorage w)(SESSION_STORAGE_KEY \<mapsto> js_to_string v))
        \<and> (create_succeeds net (sent w) w v \<and> \<not> write_accepted w v \<longrightarrow>
             fst (getSessionId net w) = Inr JNull
             \<and> localStorage (snd (getSessionId net w)) = localStorage w))
   \<and> (truthy (getItem w SESSION_STORAGE_KEY) \<and> validation_refused net w \<longrightarrow>
        sent (snd (getSessionId net w))
          = sent w @ [validate_request w (getItem w SESSION_STORAGE_KEY), create_request w]
        \<and> (create_succeeds net
              (sent w @ [validate_request w (getItem w SESSION_STORAGE_KEY)]) w v
            \<and> write_accepted w v \<longrightarrow>
             fst (getSessionId net w) = Inr v
             \<and> localStorage (snd (getSessionId net w))
                 = (localStorage w)(SESSION_STORAGE_KEY \<mapsto> js_to_string v))
        \<and> (create_succeeds net
              (sent w @ [validate_request w (getItem w SESSION_STORAGE_KEY)]) w v
            \<and> \<not> write_accepted w v \<longrightarrow>
             fst (getSessionId net w) = Inr JNull
             \<and> localStorage (snd (getSessionId net w)) = localStorage w))
   \<and> is_create_request w (create_request w)
   \<and> js_to_string (JStr sid) = sid"
proof -
  have once: "\<exists>new. sent (snd (getSessionId net w)) = sent w @ new
          \<and> length (filter (is_create_request w) new) \<le> 1"
    by (rule getSessionId_new_requests [of net w])
       (simp_all add: validate_not_create create_is_create)
  have miss: "(write_accepted w v \<longrightarrow>
             fst (getSessionId net w) = Inr v
             \<and> localStorage (snd (getSessionId net w))
                 = (localStorage w)(SESSION_STORAGE_KEY \<mapsto> js_to_string v))
        \<and> (\<not> write_accepted w v \<longrightarrow>
             fst (getSessionId net w) = Inr JNull
             \<and> localStorage (snd (getSessionId net w)) = localStorage w)"
    if "\<not> truthy (getItem w SESSION_STORAGE_KEY)" "create_succeeds net (sent w) w v"
    by (simp add: getSessionId_miss_created [OF that] console_error_def)
  have refused: "(write_accepted w v \<longrightarrow>
             fst (getSessionId net w) = Inr v
             \<and> localStorage (snd (getSessionId net w))
                 = (localStorage w)(SESSION_STORAGE_KEY \<mapsto> js_to_string v))
        \<and> (\<not> write_accepted w v \<longrightarrow>
             fst (getSessionId net w) = Inr JNull
             \<and> localStorage (snd (getSessionId net w)) = localStorage w)"
    if "truthy (getItem w SESSION_STORAGE_KEY)" "validation_refused net w"
      "create_succeeds net (sent w @ [validate_request w (getItem w SESSION_STORAGE_KEY)]) w v"
    by (simp add: getSessionId_refused_created [OF that] console_error_def)
  show ?thesis
    using once miss refused
    by (simp add: getSessionId_miss_sent getSessionId_refused_sent create_is_create)
qed

theorem getSessionId_creates_once_witness:
  "sent (snd (getSessionId backend_ok fresh_client)) = [create_request fresh_client]
   \<and> fst (getSessionId backend_ok fresh_client) = Inr (JStr ''s1'')
   \<and> localStorage (snd (getSessionId backend_ok fresh_client))
       = [SESSION_STORAGE_KEY \<mapsto> ''s1'']
   \<and> sent (snd (getSessionId backend_ok stale_client))
       = [validate_request stale_client (JStr ''stale''), create_request stale_client]
   \<and> fst (getSessionId backend_ok stale_client) = Inr (JStr ''s1'')
   \<and> localStorage (snd (getSessionId backend_ok stale_client))
       = [SESSION_STORAGE_KEY \<mapsto> ''s1'']
   \<and> fst (getSessionId backend_ok full_client) = Inr JNull
   \<and> localStorage (snd (getSessionId backend_ok full_client)) = Map.empty"
proof -
  have f: "\<not> truthy (getItem fresh_client SESSION_STORAGE_KEY)"
    "create_succeeds backend_ok (sent fresh_client) fresh_client (JStr ''s1'')"
    "write_accepted fresh_client (JStr ''s1'')"
    "sent fresh_client = []" "localStorage fresh_client = Map.empty"
    by (simp_all add: create_succeeds_def write_accepted_def run_defs example_defs)
  have s: "truthy (getItem stale_client SESSION_STORAGE_KEY)"
    "getItem stale_client SESSION_STORAGE_KEY = JStr ''stale''"
    "validation_refused backend_ok stale_client"
    "create_succeeds backend_ok
       (sent stale_client @ [validate_request stale_client (JStr ''stale'')])
       stale_client (JStr ''s1'')"
    "write_accepted stale_client (JStr ''s1'')"
    "sent stale_client = []"
    "localStorage stale_client = [SESSION_STORAGE_KEY \<mapsto> ''stale'']"
    by (simp_all add: create_succeeds_def validation_refused_def write_accepted_def
        run_defs example_defs)
  have q: "\<not> truthy (getItem full_client SESSION_STORAGE_KEY)"
    "create_succeeds backend_ok (sent full_client) full_client (JStr ''s1'')"
    "\<not> write_accepted full_client (JStr ''s1'')"
    "localStorage full_client = Map.empty"
    by (simp_all add: create_succeeds_def write_accepted_def run_defs example_defs)
  show ?thesis
    using f s q
      getSessionId_creates_once [of backend_ok fresh_client "JStr ''s1''" "''s1''"]
      getSessionId_creates_once [of backend_ok stale_client "JStr ''s1''" "''s1''"]
      getSessionId_creates_once [of backend_ok full_client "JStr ''s1''" "''s1''"]
    by simp
qed

text \<open>
  Claim C3 as stated fails when local storage takes no write. A fresh client whose storage
  is full asks a backend that answers the create with a 2xx and the id \<open>s1\<close>: the create
  succeeds, \<open>setItem\<close> throws inside the \<open>try\<close>, and getSessionId returns \<open>null\<close> with
  nothing stored.
\<close>

theorem getSessionId_creates_once_counterexample:
  "\<not> truthy (getItem full_client SESSION_STORAGE_KEY)
   \<and> create_succeeds backend_ok (sent full_client) full_client (JStr ''s1'')
   \<and> fst (getSessionId backend_ok full_client) = Inr JNull
   \<and> localStorage (snd (getSessionId backend_ok full_client)) SESSION_STORAGE_KEY = None"
  by (simp add: create_succeeds_def run_defs example_defs)

section \<open>A confirmed session id is stable\<close>

lemma interaction_not_create:
  "vite_api_url w1 = vite_api_url w \<Longrightarrow>
   \<not> is_create_request w (interaction_request w1 v t q r m)"
  by (simp add: is_create_request_def interaction_request_def SESSION_INTERACTIONS_def
      SESSIONS_def API_URL_cong [of w1 w])

lemma history_not_create: "\<not> is_create_request w (history_request w1 v limit)"
  by (simp add: is_create_request_def history_request_def get_request_def)

lemma context_not_create: "\<not> is_create_request w (context_request w1 v c)"
  by (simp add: is_create_request_def context_request_def)

lemma is_create_request_api_url:
  "vite_api_url w1 = vite_api_url w \<Longrightarrow> is_create_request w1 = is_create_request w"
  by (rule ext) (simp add: is_create_request_def SESSIONS_def API_URL_cong [of w1 w])

lemma keeps_confirming_api_url:
  "vite_api_url w1 = vite_api_url w \<Longrightarrow> keeps_confirming net w1 sid = keeps_confirming net w sid"
  by (simp add: keeps_confirming_def validate_request_def SESSION_BY_ID_def
      API_URL_cong [of w1 w])

lemma run_call_confirmed:
  assumes "localStorage w SESSION_STORAGE_KEY = Some sid" "sid \<noteq> []"
    and "keeps_confirming net w sid" "c \<noteq> ClearSession"
  shows "localStorage (snd (run_call net w c)) = localStorage w
    \<and> (\<exists>new. sent (snd (run_call net w c)) = sent w @ new
             \<and> (\<forall>req\<in>set new. \<not> is_create_request w req))
    \<and> (c = GetSessionId \<longrightarrow> fst (run_call net w c) = Inr (JStr sid))"
proof -
  let ?w1 = "w\<lparr>sent := sent w @ [validate_request w (JStr sid)]\<rparr>"
  from assms(3)
  have "case net (sent w) (validate_request w (JStr sid)) of
          Rejected \<Rightarrow> False | Resolved resp \<Rightarrow> ok resp"
    by (simp add: keeps_confirming_def)
  then obtain resp
    where "net (sent w) (validate_request w (JStr sid)) = Resolved resp" "ok resp"
    by (cases "net (sent w) (validate_request w (JStr sid))") auto
  with assms(1,2) have g: "getSessionId net w = (Inr (JStr sid), ?w1)"
    by (rule getSessionId_valid)
  have u: "vite_api_url ?w1 = vite_api_url w" by simp
  show ?thesis
  proof (cases c)
    case GetSessionId
    then show ?thesis by (simp add: g validate_not_create)
  next
    case (LogInteraction t q r m)
    then show ?thesis
      using assms(2) interaction_not_create [OF u]
      by (simp add: logInteraction_after [OF g] console_error_def validate_not_create
          split: fetch_result.splits)
  next
    case (GetHistory limit)
    then show ?thesis
      using assms(2)
      by (simp add: getHistory_after [OF g] console_error_def validate_not_create
          history_not_create split: fetch_result.splits option.splits sum.splits)
  next
    case (UpdateContext c)
    then show ?thesis
      using assms(2)
      by (simp add: updateContext_after [OF g] console_error_def validate_not_create
          context_not_create split: fetch_result.splits)
  next
    case ClearSession
    with assms(4) show ?thesis by simp
  qed
qed

lemma run_calls_head: "(c, fst (run_call net w c)) \<in> set (fst (run_calls net w (c # cs)))"
  by (simp split: prod.splits)

text \<open>
  Claim C4. A non-empty session id \<open>sid\<close> is in local storage and the server answers
  every validation of it with a 2xx status. Then, in any sequence of calls without
  clearSession, every getSessionId returns \<open>sid\<close>, local storage is left as it was, and
  no session-create request is issued.
\<close>

theorem getSessionId_idempotent:
  assumes "localStorage w SESSION_STORAGE_KEY = Some sid" "sid \<noteq> []"
    and "keeps_confirming net w sid" "ClearSession \<notin> set cs"
  shows "(\<forall>r. (GetSessionId, r) \<in> set (fst (run_calls net w cs)) \<longrightarrow> r = Inr (JStr sid))
    \<and> localStorage (snd (run_calls net w cs)) = localStorage w
    \<and> (\<exists>new. sent (snd (run_calls net w cs)) = sent w @ new
             \<and> (\<forall>req\<in>set new. \<not> is_create_request w req))"
  using assms
proof (induction cs arbitrary: w)
  case Nil
  then show ?case by simp
next
  case (Cons c cs)
  obtain r0 w1 where step: "run_call net w c = (r0, w1)"
    by (cases "run_call net w c")
  obtain rs w2 where rest: "run_calls net w1 cs = (rs, w2)"
    by (cases "run_calls net w1 cs")
  from Cons.prems have c: "c \<noteq> ClearSession" and cs: "ClearSession \<notin> set cs"
    by auto
  from run_call_confirmed [OF Cons.prems(1,2,3) c] step
  have first: "localStorage w1 = localStorage w" "c = GetSessionId \<longrightarrow> r0 = Inr (JStr sid)"
    and "\<exists>new. sent w1 = sent w @ new \<and> (\<forall>req\<in>set new. \<not> is_create_request w req)"
    by auto
  then obtain new1 where one: "sent w1 = sent w @ new1"
    "\<forall>req\<in>set new1. \<not> is_create_request w req"
    by blast
  have u: "vite_api_url w1 = vite_api_url w"
    using run_call_api_url [of net w c] step by simp
  have "localStorage w1 SESSION_STORAGE_KEY = Some sid"
    using first(1) Cons.prems(1) by simp
  moreover have "keeps_confirming net w1 sid"
    using Cons.prems(3) by (simp add: keeps_confirming_api_url [OF u])
  ultimately have "(\<forall>r. (GetSessionId, r) \<in> set (fst (run_calls net w1 cs)) \<longrightarrow> r = Inr (JStr sid))
    \<and> localStorage (snd (run_calls net w1 cs)) = localStorage w1
    \<and> (\<exists>new. sent (snd (run_calls net w1 cs)) = sent w1 @ new
             \<and> (\<forall>req\<in>set new. \<not> is_create_request w1 req))"
    using Cons.prems(2) cs by (intro Cons.IH)
  with rest obtain new2 where two: "\<forall>r. (GetSessionId, r) \<in> set rs \<longrightarrow> r = Inr (JStr sid)"
    "localStorage w2 = localStorage w1" "sent w2 = sent w1 @ new2"
    "\<forall>req\<in>set new2. \<not> is_create_request w req"
    by (auto simp: is_create_request_api_url [OF u])
  have "sent w2 = sent w @ (new1 @ new2)" "\<forall>req\<in>set (new1 @ new2). \<not> is_create_request w req"
    using one two by auto
  then have "\<exists>new. sent w2 = sent w @ new \<and> (\<forall>req\<in>set new. \<not> is_create_request w req)"
    by blast
  with first two show ?case
    by (auto simp: step rest)
qed

theorem getSessionId_idempotent_witness:
  "localStorage returning_client SESSION_STORAGE_KEY = Some ''abc''
   \<and> fst (getSessionId backend_ok returning_client) = Inr (JStr ''abc'')
   \<and> localStorage (snd (run_calls backend_ok returning_client
                          [GetSessionId, GetHistory (JNum 5), GetSessionId]))
       = localStorage returning_client"
proof -
  have s: "localStorage returning_client SESSION_STORAGE_KEY = Some ''abc''"
    by (simp add: returning_client_def)
  have n: "''abc'' \<noteq> []" by simp
  have k: "keeps_confirming backend_ok returning_client ''abc''"
    by (simp add: keeps_confirming_def run_defs example_defs)
  have c: "ClearSession \<notin> set [GetSessionId, GetHistory (JNum 5), GetSessionId]"
    by simp
  have m: "(GetSessionId, fst (run_call backend_ok returning_client GetSessionId))
        \<in> set (fst (run_calls backend_ok returning_client
                      [GetSessionId, GetHistory (JNum 5), GetSessionId]))"
    by (rule run_calls_head)
  from getSessionId_idempotent [OF s n k c] m
  have "fst (run_call backend_ok returning_client GetSessionId) = Inr (JStr ''abc'')"
    by blast
  then have e: "fst (getSessionId backend_ok returning_client) = Inr (JStr ''abc'')"
    by (simp only: run_call.simps)
  from getSessionId_idempotent [OF s n k c]
  have "localStorage (snd (run_calls backend_ok returning_client
                          [GetSessionId, GetHistory (JNum 5), GetSessionId]))
       = localStorage returning_client"
    by blast
  with s e show ?thesis by blast
qed


section \<open>getHistory and the limit\<close>

lemma history_request_url:
  assumes "vite_api_url w1 = vite_api_url w"
  shows "history_request w1 sid (default_param limit (JNum 50)) =
     get_request (API_URL w @ ''/api/sessions/'' @ js_to_string sid @ ''/history?limit=''
                  @ js_to_string (if limit = JUndefined then JNum 50 else limit))"
  by (simp add: history_request_def SESSION_HISTORY_def default_param_def
      API_URL_cong [OF assms])

lemma getHistory_sent:
  assumes "getSessionId net w = (Inr sid, w1)" "truthy sid"
  shows "sent (snd (getHistory net w limit)) =
           sent w1 @ [history_request w1 sid (default_param limit (JNum 50))]"
  using assms(2)
  by (simp add: getHistory_after [OF assms(1)] console_error_def
      split: fetch_result.splits option.splits sum.splits)

lemma getHistory_truthy_history:
  assumes "getSessionId net w = (Inr sid, w1)" "truthy sid"
    and "net (sent w1) (history_request w1 sid (default_param limit (JNum 50))) = Resolved resp"
    and "ok resp" "json_body resp = Some data" "get_prop data ''history'' = Inr history"
  shows "fst (getHistory net w limit) = Inr (js_or history (JArr []))"
  using assms(2-) by (simp add: getHistory_after [OF assms(1)])

lemma getHistory_within:
  assumes "getSessionId net w = (Inr sid, w1)"
    and "reply_within_limit net (sent w1)
           (history_request w1 sid (default_param limit (JNum 50))) n"
  shows "\<exists>v. fst (getHistory net w limit) = Inr v \<and> record_count v \<le> n"
  using assms(2)
  by (auto simp add: getHistory_after [OF assms(1)] reply_within_limit_def js_or_def
      split: fetch_result.splits option.splits sum.splits)

text \<open>
  Claim C5, as the code has it. getHistory never raises. It gives the limit to the server
  as the \<open>limit\<close> query parameter (50 when omitted) and returns the server's \<open>history\<close>
  value as received, without truncating it; so the result holds at most \<open>n\<close> records
  whenever the history in the server's reply does. When session resolution yields no id
  no history request is sent and the result is the empty array; when the history request
  fails (network failure, non-2xx status, body that does not parse) the result is the
  empty array.
\<close>

theorem getHistory_limit:
  assumes "getSessionId net w = (Inr sid, w1)"
  shows "(\<exists>v. fst (getHistory net w limit) = Inr v)
    \<and> (\<not> truthy sid \<longrightarrow> getHistory net w limit = (Inr (JArr []), w1))
    \<and> (truthy sid \<longrightarrow>
         sent (snd (getHistory net w limit)) =
           sent w1 @
           [get_request (API_URL w @ ''/api/sessions/'' @ js_to_string sid @ ''/history?limit=''
                         @ js_to_string (if limit = JUndefined then JNum 50 else limit))])
    \<and> (failing (net (sent w1) (history_request w1 sid (default_param limit (JNum 50)))) \<longrightarrow>
         fst (getHistory net w limit) = Inr (JArr []))
    \<and> (truthy sid \<and> truthy history
        \<and> net (sent w1) (history_request w1 sid (default_param limit (JNum 50)))
            = Resolved resp
        \<and> ok resp \<and> json_body resp = Some data \<and> get_prop data ''history'' = Inr history \<longrightarrow>
         fst (getHistory net w limit) = Inr history)
    \<and> (reply_within_limit net (sent w1)
          (history_request w1 sid (default_param limit (JNum 50))) n \<longrightarrow>
         (\<exists>v. fst (getHistory net w limit) = Inr v \<and> record_count v \<le> n))"
proof -
  have u: "vite_api_url w1 = vite_api_url w"
    using getSessionId_api_url [of net w] assms by simp
  have a: "\<not> truthy sid \<longrightarrow> getHistory net w limit = (Inr (JArr []), w1)"
    by (simp add: getHistory_after [OF assms])
  have b: "truthy sid \<longrightarrow>
         sent (snd (getHistory net w limit)) =
           sent w1 @
           [get_request (API_URL w @ ''/api/sessions/'' @ js_to_string sid @ ''/history?limit=''
                         @ js_to_string (if limit = JUndefined then JNum 50 else limit))]"
    using getHistory_sent [OF assms, of limit] history_request_url [OF u, of sid limit]
    by simp
  have c: "failing (net (sent w1) (history_request w1 sid (default_param limit (JNum 50)))) \<longrightarrow>
         fst (getHistory net w limit) = Inr (JArr [])"
    using getHistory_failing_reply [OF assms, of limit] by blast
  have d: "truthy sid \<and> truthy history
        \<and> net (sent w1) (history_request w1 sid (default_param limit (JNum 50)))
            = Resolved resp
        \<and> ok resp \<and> json_body resp = Some data \<and> get_prop data ''history'' = Inr history \<longrightarrow>
         fst (getHistory net w limit) = Inr history"
    using getHistory_truthy_history [OF assms, of limit resp data history]
    by (simp add: js_or_def)
  have e: "reply_within_limit net (sent w1)
          (history_request w1 sid (default_param limit (JNum 50))) n \<longrightarrow>
         (\<exists>v. fst (getHistory net w limit) = Inr v \<and> record_count v \<le> n)"
    using getHistory_within [OF assms, of limit n] by blast
  from a b c d e show ?thesis
    using getHistory_returns [of net w limit] by blast
qed

theorem getHistory_limit_witness:
  "getSessionId backend_ok returning_client
     = (Inr (JStr ''abc''),
        returning_client\<lparr>sent := [validate_request returning_client (JStr ''abc'')]\<rparr>)
   \<and> sent (snd (getHistory backend_ok returning_client (JNum 5)))
       = [validate_request returning_client (JStr ''abc''),
          get_request ''http://localhost:8086/api/sessions/abc/history?limit=5'']
   \<and> fst (getHistory backend_ok returning_client (JNum 5)) = Inr (JArr history_records)
   \<and> fst (getHistory backend_down returning_client (JNum 5)) = Inr (JArr [])"
proof -
  let ?w1 = "returning_client\<lparr>sent := [validate_request returning_client (JStr ''abc'')]\<rparr>"
  have g: "getSessionId backend_ok returning_client = (Inr (JStr ''abc''), ?w1)"
    by (simp add: run_defs example_defs)
  have t: "truthy (JStr ''abc'')" "truthy (JArr history_records)" by simp_all
  have r: "backend_ok (sent ?w1)
             (history_request ?w1 (JStr ''abc'') (default_param (JNum 5) (JNum 50)))
           = Resolved \<lparr>status = 200,
                json_body = Some (JObj [(''history'', JArr history_records)])\<rparr>"
    "ok \<lparr>status = 200, json_body = Some (JObj [(''history'', JArr history_records)])\<rparr>"
    "get_prop (JObj [(''history'', JArr history_records)]) ''history''
       = Inr (JArr history_records)"
    by (simp_all add: run_defs backend_ok_def returning_client_def json_defs)
  have u: "API_URL returning_client = ''http://localhost:8086''" "sent ?w1 = [validate_request returning_client (JStr ''abc'')]"
    "js_to_string (JNum 5) = ''5''" "js_to_string (JStr ''abc'') = ''abc''"
    by (simp_all add: API_URL_def returning_client_def json_defs)
  obtain v0 w0 where d: "getSessionId backend_down returning_client = (Inr v0, w0)"
    by (rule getSessionId_resolves)
  have f: "failing (backend_down (sent w0)
             (history_request w0 v0 (default_param (JNum 5) (JNum 50))))"
    by (simp add: backend_down_def)
  show ?thesis
    using g t r u f
      getHistory_limit [OF g, of "JNum 5" "JArr history_records"
        "\<lparr>status = 200, json_body = Some (JObj [(''history'', JArr history_records)])\<rparr>"
        "JObj [(''history'', JArr history_records)]" 2]
      getHistory_limit [OF d, of "JNum 5"]
    by simp
qed

text \<open>
  Claim C5 as stated fails on its bound. A returning client with a valid session asks for
  one record; the backend answers with two whatever the limit; getHistory returns both.
\<close>

theorem getHistory_limit_counterexample:
  "fst (getHistory backend_ok returning_client (JNum 1)) = Inr (JArr history_records)
   \<and> \<not> record_count (JArr history_records) \<le> 1"
  by (simp add: run_defs example_defs json_defs)

section \<open>logInteraction\<close>

text \<open>
  Claim C6. When session resolution yields no id (\<open>null\<close>, or any other falsy value),
  logInteraction returns \<open>false\<close> and leaves the world exactly as session resolution left
  it: nothing is sent after it, in particular no append request, and nothing is thrown.
  The requests of the whole call are those of session resolution: a validation, a
  create, or both.
\<close>

theorem logInteraction_without_session:
  assumes "getSessionId net w = (Inr v, w1)" "\<not> truthy v"
  shows "logInteraction net w t q r m = (Inr (JBool False), w1)
    \<and> sent (snd (logInteraction net w t q r m)) = sent (snd (getSessionId net w))
    \<and> (\<exists>new. sent (snd (logInteraction net w t q r m)) = sent w @ new
             \<and> (\<forall>req\<in>set new. req = create_request w
                      \<or> req = validate_request w (getItem w SESSION_STORAGE_KEY)))"
proof -
  have l: "logInteraction net w t q r m = (Inr (JBool False), w1)"
    using assms(2) by (simp add: logInteraction_after [OF assms(1)])
  have s: "sent w1 = sent (snd (getSessionId net w))"
    using assms(1) by simp
  have "\<exists>new. sent (snd (getSessionId net w)) = sent w @ new
             \<and> (\<forall>req\<in>set new. req = create_request w
                      \<or> req = validate_request w (getItem w SESSION_STORAGE_KEY))"
    by (rule getSessionId_new_requests [of net w]) simp_all
  with l s show ?thesis by simp
qed

theorem logInteraction_without_session_witness:
  "getSessionId backend_down fresh_client
     = (Inr JNull,
        fresh_client\<lparr>sent := [create_request fresh_client],
                      console := [(''Error managing session:'', NetworkError)]\<rparr>)
   \<and> \<not> truthy JNull
   \<and> logInteraction backend_down fresh_client (JStr ''view'') JUndefined JUndefined JUndefined
       = (Inr (JBool False),
          fresh_client\<lparr>sent := [create_request fresh_client],
                        console := [(''Error managing session:'', NetworkError)]\<rparr>)"
proof -
  have g: "getSessionId backend_down fresh_client
     = (Inr JNull,
        fresh_client\<lparr>sent := [create_request fresh_client],
                      console := [(''Error managing session:'', NetworkError)]\<rparr>)"
    by (simp add: run_defs example_defs)
  have n: "\<not> truthy JNull" by simp
  from logInteraction_without_session [OF g n, of "JStr ''view''" JUndefined JUndefined JUndefined]
    g n
  show ?thesis by blast
qed


lemma stringified_keys_payload:
  assumes "t \<noteq> JUndefined" "q \<noteq> JUndefined" "r \<noteq> JUndefined" "m \<noteq> JUndefined"
  shows "stringified_keys [(''interaction_type'', t), (''query'', q), (''results'', r),
                           (''metadata'', m)]
         = [''interaction_type'', ''query'', ''results'', ''metadata'']"
  using assms by (simp add: stringified_keys_def)

text \<open>
  Claim C7. With a valid session (session resolution yields a truthy id),
  logInteraction sends exactly one request after session resolution: a POST to that
  session's interactions endpoint whose body is the JSON text of the object with the
  properties \<open>interaction_type\<close> (the kind), \<open>query\<close>, \<open>results\<close>, \<open>metadata\<close>, each omitted
  argument replaced by \<open>null\<close>. With a kind given, the body has exactly these four
  properties.
\<close>

theorem logInteraction_one_append:
  assumes "getSessionId net w = (Inr sid, w1)" "truthy sid"
  shows "sent (snd (logInteraction net w t q r m)) =
      sent w1 @
      [\<lparr>url = API_URL w @ ''/api/sessions/'' @ js_to_string sid @ ''/interactions'',
        method = ''POST'',
        headers = [(''Content-Type'', ''application/json'')],
        body = JSON_stringify
                 (JObj [(''interaction_type'', t),
                        (''query'', if q = JUndefined then JNull else q),
                        (''results'', if r = JUndefined then JNull else r),
                        (''metadata'', if m = JUndefined then JNull else m)])\<rparr>]
    \<and> (t \<noteq> JUndefined \<longrightarrow>
         stringified_keys [(''interaction_type'', t),
                           (''query'', if q = JUndefined then JNull else q),
                           (''results'', if r = JUndefined then JNull else r),
                           (''metadata'', if m = JUndefined then JNull else m)]
         = [''interaction_type'', ''query'', ''results'', ''metadata''])"
proof -
  have u: "vite_api_url w1 = vite_api_url w"
    using getSessionId_api_url [of net w] assms(1) by simp
  have "sent (snd (logInteraction net w t q r m)) =
      sent w1 @ [interaction_request w1 sid t (default_param q JNull) (default_param r JNull)
                   (default_param m JNull)]"
    using assms(2)
    by (simp add: logInteraction_after [OF assms(1)] console_error_def
        split: fetch_result.splits)
  moreover have "interaction_request w1 sid t (default_param q JNull) (default_param r JNull)
                   (default_param m JNull) =
      \<lparr>url = API_URL w @ ''/api/sessions/'' @ js_to_string sid @ ''/interactions'',
        method = ''POST'',
        headers = [(''Content-Type'', ''application/json'')],
        body = JSON_stringify
                 (JObj [(''interaction_type'', t),
                        (''query'', if q = JUndefined then JNull else q),
                        (''results'', if r = JUndefined then JNull else r),
                        (''metadata'', if m = JUndefined then JNull else m)])\<rparr>"
    by (simp add: interaction_request_def interaction_payload_def SESSION_INTERACTIONS_def
        json_headers_def default_param_def API_URL_cong [OF u])
  ultimately show ?thesis
    by (simp add: stringified_keys_payload)
qed

theorem logInteraction_one_append_witness:
  \<open>getSessionId backend_ok returning_client
     = (Inr (JStr ''abc''),
        returning_client\<lparr>sent := [validate_request returning_client (JStr ''abc'')]\<rparr>)
   \<and> sent (snd (logInteraction backend_ok returning_client (JStr ''view'') JNull
                  (JObj [(''suspect_id'', JStr ''X'')]) JUndefined))
       = [validate_request returning_client (JStr ''abc''),
          \<lparr>url = ''http://localhost:8086/api/sessions/abc/interactions'',
           method = ''POST'',
           headers = [(''Content-Type'', ''application/json'')],
           body = Some ''{"interaction_type":"view","query":null,"results":{"suspect_id":"X"},"metadata":null}''\<rparr>]\<close>
proof -
  let ?w1 = "returning_client\<lparr>sent := [validate_request returning_client (JStr ''abc'')]\<rparr>"
  have g: "getSessionId backend_ok returning_client = (Inr (JStr ''abc''), ?w1)"
    by (simp add: run_defs example_defs)
  have t: "truthy (JStr ''abc'')" by simp
  have u: "API_URL returning_client = ''http://localhost:8086''"
    by (simp add: API_URL_def returning_client_def)
  from logInteraction_one_append [OF g t, of "JStr ''view''" JNull
      "JObj [(''suspect_id'', JStr ''X'')]" JUndefined] g
  show ?thesis
    by (simp add: u json_defs)
qed

section \<open>clearSession\<close>

text \<open>
  Claim C8. clearSession removes the entry under the session storage key and changes
  nothing else: every other storage entry, the requests sent (so no request is issued),
  the console, the quota and the configuration stay as they were. The next getSessionId
  then sends exactly one request, a session create with no validation before it. When
  that create succeeds with id \<open>v\<close> and local storage accepts the write, it returns \<open>v\<close>
  and stores it; when local storage refuses the write it returns \<open>null\<close> and the key stays
  absent.
\<close>

theorem clearSession_local_only:
  "clearSession w = w\<lparr>localStorage := (localStorage w)(SESSION_STORAGE_KEY := None)\<rparr>
   \<and> sent (clearSession w) = sent w
   \<and> console (clearSession w) = console w
   \<and> vite_api_url (clearSession w) = vite_api_url w
   \<and> quota_allows (clearSession w) = quota_allows w
   \<and> localStorage (clearSession w) SESSION_STORAGE_KEY = None
   \<and> (k \<noteq> SESSION_STORAGE_KEY \<longrightarrow> localStorage (clearSession w) k = localStorage w k)
   \<and> sent (snd (getSessionId net (clearSession w))) = sent w @ [create_request w]
   \<and> (create_succeeds net (sent w) w v \<and> write_accepted (clearSession w) v \<longrightarrow>
        fst (getSessionId net (clearSession w)) = Inr v
        \<and> localStorage (snd (getSessionId net (clearSession w))) SESSION_STORAGE_KEY
            = Some (js_to_string v))
   \<and> (create_succeeds net (sent w) w v \<and> \<not> write_accepted (clearSession w) v \<longrightarrow>
        fst (getSessionId net (clearSession w)) = Inr JNull
        \<and> localStorage (snd (getSessionId net (clearSession w))) SESSION_STORAGE_KEY = None)"
proof -
  let ?c = "clearSession w"
  have c: "?c = w\<lparr>localStorage := (localStorage w)(SESSION_STORAGE_KEY := None)\<rparr>"
    by (simp add: clearSession_def removeItem_def)
  have miss: "\<not> truthy (getItem ?c SESSION_STORAGE_KEY)"
    by (simp add: c getItem_def)
  have cr: "create_request ?c = create_request w"
    by (rule create_request_api_url) (simp add: c)
  have s: "sent ?c = sent w" by (simp add: c)
  have "sent (snd (getSessionId net ?c)) = sent w @ [create_request w]"
    using getSessionId_miss_sent [OF miss, of net] by (simp add: cr s)
  moreover have "(write_accepted ?c v \<longrightarrow>
        fst (getSessionId net ?c) = Inr v
        \<and> localStorage (snd (getSessionId net ?c)) SESSION_STORAGE_KEY = Some (js_to_string v))
     \<and> (\<not> write_accepted ?c v \<longrightarrow>
        fst (getSessionId net ?c) = Inr JNull
        \<and> localStorage (snd (getSessionId net ?c)) SESSION_STORAGE_KEY = None)"
    if "create_succeeds net (sent w) w v"
  proof -
    from that have "create_succeeds net (sent ?c) ?c v"
      by (simp add: create_succeeds_def cr s)
    from getSessionId_miss_created [OF miss this] show ?thesis
      by (simp add: console_error_def) (simp add: c)
  qed
  ultimately show ?thesis
    by (simp add: c)
qed

theorem clearSession_local_only_witness:
  "localStorage (clearSession returning_client) = Map.empty
   \<and> sent (snd (getSessionId backend_ok (clearSession returning_client)))
       = [create_request returning_client]
   \<and> fst (getSessionId backend_ok (clearSession returning_client)) = Inr (JStr ''s1'')
   \<and> localStorage (snd (getSessionId backend_ok (clearSession returning_client)))
        SESSION_STORAGE_KEY = Some ''s1''
   \<and> fst (getSessionId backend_ok (clearSession full_client)) = Inr JNull"
proof -
  have c: "create_succeeds backend_ok (sent returning_client) returning_client (JStr ''s1'')"
    "write_accepted (clearSession returning_client) (JStr ''s1'')"
    by (simp_all add: create_succeeds_def write_accepted_def run_defs example_defs)
  have q: "create_succeeds backend_ok (sent full_client) full_client (JStr ''s1'')"
    "\<not> write_accepted (clearSession full_client) (JStr ''s1'')"
    by (simp_all add: create_succeeds_def write_accepted_def run_defs example_defs)
  have e: "(localStorage returning_client)(SESSION_STORAGE_KEY := None) = Map.empty"
    "sent returning_client = []"
    by (simp_all add: returning_client_def)
  note local = clearSession_local_only [of returning_client "''other''" backend_ok "JStr ''s1''"]
  from local
  have "clearSession returning_client =
          returning_client\<lparr>localStorage :=
            (localStorage returning_client)(SESSION_STORAGE_KEY := None)\<rparr>"
    by blast
  then have emptied: "localStorage (clearSession returning_client) = Map.empty"
    by (simp add: e)
  from local c
  have "sent (snd (getSessionId backend_ok (clearSession returning_client)))
       = sent returning_client @ [create_request returning_client]
   \<and> fst (getSessionId backend_ok (clearSession returning_client)) = Inr (JStr ''s1'')
   \<and> localStorage (snd (getSessionId backend_ok (clearSession returning_client)))
        SESSION_STORAGE_KEY = Some (js_to_string (JStr ''s1''))"
    by blast
  moreover
  from clearSession_local_only [of full_client "''other''" backend_ok "JStr ''s1''"] q
  have "fst (getSessionId backend_ok (clearSession full_client)) = Inr JNull"
    by blast
  ultimately show ?thesis
    using emptied by (simp add: e)
qed

section \<open>The body of a session-create request\<close>

lemma create_request_fixed:
  \<open>create_request w =
     \<lparr>url = API_URL w @ ''/api/sessions'', method = ''POST'',
      headers = [(''Content-Type'', ''application/json'')],
      body = Some ''{"user_id":"web_user"}''\<rparr>\<close>
  by (simp add: create_request_def SESSIONS_def json_headers_def json_defs)

lemma getSessionId_only_create:
  "\<exists>new. sent (snd (getSessionId net w)) = sent w @ new
         \<and> (\<forall>req\<in>set new. is_create_request w req \<longrightarrow> req = create_request w)"
  by (rule getSessionId_new_requests [of net w]) (simp_all add: validate_not_create)

lemma run_call_after_resolution:
  "\<exists>extra. sent (snd (run_call net w c)) = sent (snd (getSessionId net w)) @ extra
           \<and> (\<forall>req\<in>set extra. \<not> is_create_request w req)
   \<or> c = ClearSession"
proof (rule getSessionId_resolves [of net w])
  fix v w1 assume g: "getSessionId net w = (Inr v, w1)"
  have u: "vite_api_url w1 = vite_api_url w"
    using getSessionId_api_url [of net w] g by simp
  show ?thesis
  proof (cases c)
    case GetSessionId
    then show ?thesis by simp
  next
    case (LogInteraction t q r m)
    then show ?thesis
      using interaction_not_create [OF u]
      by (simp add: g logInteraction_after [OF g] console_error_def split: fetch_result.splits)
  next
    case (GetHistory limit)
    then show ?thesis
      by (simp add: g getHistory_after [OF g] console_error_def history_not_create
          split: fetch_result.splits option.splits sum.splits)
  next
    case (UpdateContext c)
    then show ?thesis
      by (simp add: g updateContext_after [OF g] console_error_def context_not_create
          split: fetch_result.splits)
  next
    case ClearSession
    then show ?thesis by simp
  qed
qed

lemma run_call_only_create:
  "\<exists>new. sent (snd (run_call net w c)) = sent w @ new
         \<and> (\<forall>req\<in>set new. is_create_request w req \<longrightarrow> req = create_request w)"
proof (cases "c = ClearSession")
  case True
  then show ?thesis by (simp add: clearSession_def removeItem_def)
next
  case False
  with run_call_after_resolution [of net w c] obtain extra
    where e: "sent (snd (run_call net w c)) = sent (snd (getSessionId net w)) @ extra"
      "\<forall>req\<in>set extra. \<not> is_create_request w req"
    by blast
  from getSessionId_only_create [of net w] obtain new
    where n: "sent (snd (getSessionId net w)) = sent w @ new"
      "\<forall>req\<in>set new. is_create_request w req \<longrightarrow> req = create_request w"
    by blast
  have "sent (snd (run_call net w c)) = sent w @ (new @ extra)"
    "\<forall>req\<in>set (new @ extra). is_create_request w req \<longrightarrow> req = create_request w"
    using e n by auto
  then show ?thesis by blast
qed

lemma run_calls_only_create:
  "\<exists>new. sent (snd (run_calls net w cs)) = sent w @ new
         \<and> (\<forall>req\<in>set new. is_create_request w req \<longrightarrow> req = create_request w)"
proof (induction cs arbitrary: w)
  case Nil
  then show ?case by simp
next
  case (Cons c cs)
  obtain r0 w1 where step: "run_call net w c = (r0, w1)"
    by (cases "run_call net w c")
  obtain rs w2 where rest: "run_calls net w1 cs = (rs, w2)"
    by (cases "run_calls net w1 cs")
  have u: "vite_api_url w1 = vite_api_url w"
    using run_call_api_url [of net w c] step by simp
  from run_call_only_create [of net w c] step obtain new1
    where one: "sent w1 = sent w @ new1"
      "\<forall>req\<in>set new1. is_create_request w req \<longrightarrow> req = create_request w"
    by auto
  from Cons.IH [of w1] rest obtain new2
    where two: "sent w2 = sent w1 @ new2"
      "\<forall>req\<in>set new2. is_create_request w req \<longrightarrow> req = create_request w"
    by (auto simp: is_create_request_api_url [OF u] create_request_api_url [OF u])
  have "sent w2 = sent w @ (new1 @ new2)"
    "\<forall>req\<in>set (new1 @ new2). is_create_request w req \<longrightarrow> req = create_request w"
    using one two by auto
  then have "\<exists>new. sent w2 = sent w @ new
         \<and> (\<forall>req\<in>set new. is_create_request w req \<longrightarrow> req = create_request w)"
    by blast
  then show ?case by (simp add: step rest)
qed

lemma run_calls_single: "snd (run_calls net w [c]) = snd (run_call net w c)"
  by (simp split: prod.splits)

text \<open>
  Claim C9. Whatever the caller does and whatever the state, every session-create request
  the client issues (a POST to the sessions collection, sent by getSessionId on its own or
  inside logInteraction, getHistory and updateContext) is the same request: its body is
  the JSON text of \<open>{ user_id: 'web_user' }\<close>.
\<close>

theorem create_request_body_fixed:
  \<open>\<exists>new. sent (snd (run_calls net w cs)) = sent w @ new
         \<and> (\<forall>req\<in>set new. is_create_request w req \<longrightarrow>
               req = \<lparr>url = API_URL w @ ''/api/sessions'', method = ''POST'',
                      headers = [(''Content-Type'', ''application/json'')],
                      body = Some ''{"user_id":"web_user"}''\<rparr>)\<close>
  using run_calls_only_create [of net w cs] by (simp add: create_request_fixed)

theorem create_request_body_fixed_witness:
  \<open>sent (snd (run_calls backend_ok fresh_client [GetSessionId]))
     = [create_request fresh_client]
   \<and> is_create_request fresh_client (create_request fresh_client)
   \<and> body (create_request fresh_client) = Some ''{"user_id":"web_user"}''\<close>
proof -
  have "\<not> truthy (getItem fresh_client SESSION_STORAGE_KEY)" "sent fresh_client = []"
    by (simp_all add: getItem_def fresh_client_def)
  then have "sent (snd (getSessionId backend_ok fresh_client)) = [create_request fresh_client]"
    by (simp add: getSessionId_miss_sent)
  then have s: "sent (snd (run_calls backend_ok fresh_client [GetSessionId]))
             = [create_request fresh_client]"
    by (simp only: run_calls_single run_call.simps)
  have c: "is_create_request fresh_client (create_request fresh_client)"
    by (rule create_is_create)
  from create_request_body_fixed [of backend_ok fresh_client "[GetSessionId]"] s c
  have \<open>create_request fresh_client
          = \<lparr>url = API_URL fresh_client @ ''/api/sessions'', method = ''POST'',
             headers = [(''Content-Type'', ''application/json'')],
             body = Some ''{"user_id":"web_user"}''\<rparr>\<close>
    by (auto simp: fresh_client_def)
  then have \<open>body (create_request fresh_client) = Some ''{"user_id":"web_user"}''\<close>
    by (metis request.select_convs(4))
  with s c show ?thesis by blast
qed

section \<open>getHistory and the shape of the reply\<close>

text \<open>
  Claim C10, as the code has it. The history request got a 2xx reply whose body parsed.
  If the body has no \<open>history\<close> property, or the property is \<open>null\<close> or otherwise falsy, or
  the body is \<open>null\<close> itself, getHistory returns the empty array. A truthy \<open>history\<close> is
  returned as received; so the result is an array provided that a truthy \<open>history\<close> is
  one.
\<close>

theorem getHistory_falsy_history:
  assumes "getSessionId net w = (Inr sid, w1)" "truthy sid"
    and "net (sent w1) (history_request w1 sid (default_param limit (JNum 50))) = Resolved resp"
    and "ok resp" "json_body resp = Some data"
  shows "(data = JObj kvs \<and> map_of kvs ''history'' = None \<longrightarrow>
           fst (getHistory net w limit) = Inr (JArr []))
    \<and> (get_prop data ''history'' = Inr history \<and> \<not> truthy history \<longrightarrow>
           fst (getHistory net w limit) = Inr (JArr []))
    \<and> (get_prop data ''history'' = Inl e \<longrightarrow> fst (getHistory net w limit) = Inr (JArr []))
    \<and> (get_prop data ''history'' = Inr history \<and> truthy history \<longrightarrow>
           fst (getHistory net w limit) = Inr history)
    \<and> ((\<forall>h. get_prop data ''history'' = Inr h \<and> truthy h \<longrightarrow> is_array h) \<longrightarrow>
         (\<exists>v. fst (getHistory net w limit) = Inr v \<and> is_array v))"
proof -
  have r: "fst (getHistory net w limit) =
     (case get_prop data ''history'' of
        Inl e \<Rightarrow> Inr (JArr [])
      | Inr history \<Rightarrow> Inr (js_or history (JArr [])))"
    using assms(2-) by (simp add: getHistory_after [OF assms(1)] split: sum.splits)
  show ?thesis
    unfolding r by (cases "get_prop data ''history''") (auto simp: js_or_def)
qed

theorem getHistory_falsy_history_witness:
  "getSessionId backend_no_history returning_client
     = (Inr (JStr ''abc''),
        returning_client\<lparr>sent := [validate_request returning_client (JStr ''abc'')]\<rparr>)
   \<and> map_of [(''status'', JStr ''ok'')] ''history'' = None
   \<and> fst (getHistory backend_no_history returning_client (JNum 5)) = Inr (JArr [])"
proof -
  let ?w1 = "returning_client\<lparr>sent := [validate_request returning_client (JStr ''abc'')]\<rparr>"
  have g: "getSessionId backend_no_history returning_client = (Inr (JStr ''abc''), ?w1)"
    by (simp add: run_defs example_defs)
  have t: "truthy (JStr ''abc'')" by simp
  have n: "backend_no_history (sent ?w1)
             (history_request ?w1 (JStr ''abc'') (default_param (JNum 5) (JNum 50)))
           = Resolved \<lparr>status = 200, json_body = Some (JObj [(''status'', JStr ''ok'')])\<rparr>"
    by (simp add: backend_no_history_def)
  have k: "ok \<lparr>status = 200, json_body = Some (JObj [(''status'', JStr ''ok'')])\<rparr>"
    by (simp add: ok_def)
  have j: "json_body \<lparr>status = 200, json_body = Some (JObj [(''status'', JStr ''ok'')])\<rparr>
           = Some (JObj [(''status'', JStr ''ok'')])"
    by simp
  have m: "map_of [(''status'', JStr ''ok'')] ''history'' = None" by simp
  from getHistory_falsy_history [OF g t n k j, of "[(''status'', JStr ''ok'')]"] g m
  show ?thesis by blast
qed

text \<open>
  Claim C10 as stated says the result is always an array. A returning client with a valid
  session gets a 2xx history reply whose \<open>history\<close> is a text; getHistory returns the
  text.
\<close>

theorem getHistory_falsy_history_counterexample:
  "fst (getHistory backend_history_text returning_client (JNum 5)) = Inr (JStr ''unavailable'')
   \<and> \<not> is_array (JStr ''unavailable'')"
  by (simp add: run_defs example_defs json_defs)

end
